theory Spec2Isabelle
  imports Complex_Main
begin

section \<open>Postage stamps and PSF subtraction: the notebook's code as HOL functions\<close>

text \<open>
  The development follows the notebook \<^verbatim>\<open>DC2_Postage_Stamps\<close>: the functions
  \<^verbatim>\<open>cutout_coadd_ra_dec\<close>, \<^verbatim>\<open>cutout_coadd_spherepoint\<close>,
  \<^verbatim>\<open>make_cutout_image\<close> and \<^verbatim>\<open>display_cutout_image\<close>, the loop over the
  catalogue of targets, and the cells that scale a PSF image and subtract it from a cutout.

  The butler, the sky map, the file system and the plotting libraries are not part of the
  notebook. They appear as parameters: records of functions that answer each call with a
  value or with an error. Every call that leaves the notebook is written to a list of
  events, in the order the code makes it. Floating-point arithmetic is IEEE 754 in single
  and double precision. The order in which \<^verbatim>\<open>np.sum\<close> adds the elements of an array
  is numpy's own, so \<^verbatim>\<open>np.sum\<close> is a parameter as well.
\<close>

subsection \<open>Errors\<close>

text \<open>
  \<^verbatim>\<open>IndexError\<close>, \<^verbatim>\<open>ValueError\<close> and \<^verbatim>\<open>TypeError\<close> are what numpy and the
  image constructors raise on the notebook's own expressions. \<^verbatim>\<open>NameError\<close> is a name
  with no object behind it. \<^verbatim>\<open>External\<close> is an exception raised inside a collaborator,
  by the name of its class. The notebook has no \<^verbatim>\<open>raise\<close>, \<^verbatim>\<open>try\<close> or
  \<^verbatim>\<open>except\<close> of its own.
\<close>

datatype error =
    IndexError
  | ValueError
  | TypeError
  | NameError
  | External string

subsection \<open>Floating-point values\<close>

text \<open>
  The element types of the arrays are IEEE 754 single precision (\<^verbatim>\<open>float32\<close>, 24
  significant bits, exponents from -126 to 127) and double precision (\<^verbatim>\<open>float64\<close>,
  53 significant bits, exponents from -1022 to 1023). A float is a finite value (the real
  number it stands for; \<open>Fin 0\<close> is \<^verbatim>\<open>+0.0\<close>), the negative zero \<^verbatim>\<open>-0.0\<close>, an
  infinity or NaN.
\<close>

datatype dtype = Float32 | Float64

datatype npfloat = Fin real | NZero | PInf | NInf | NaN

fun precision :: "dtype \<Rightarrow> int" where
  "precision Float32 = 24"
| "precision Float64 = 53"

fun emax :: "dtype \<Rightarrow> int" where
  "emax Float32 = 127"
| "emax Float64 = 1023"

definition emin :: "dtype \<Rightarrow> int" where
  "emin d = 1 - emax d"

text \<open>
  The exponent of a positive real \<open>a\<close> in a format: the \<open>e\<close> with
  \<open>2 powi e \<le> a < 2 powi (e + 1)\<close>, kept between the least and the greatest exponent of
  the format (below the least one the values are subnormal). It is found by counting up
  from 0 or down from -1.
\<close>

fun scan_up :: "real \<Rightarrow> int \<Rightarrow> nat \<Rightarrow> int" where
  "scan_up x e 0 = e"
| "scan_up x e (Suc k) = (if x < 2 powi (e + 1) then e else scan_up x (e + 1) k)"

fun scan_down :: "real \<Rightarrow> int \<Rightarrow> nat \<Rightarrow> int" where
  "scan_down x e 0 = e"
| "scan_down x e (Suc k) = (if 2 powi e \<le> x then e else scan_down x (e - 1) k)"

definition exponent :: "dtype \<Rightarrow> real \<Rightarrow> int" where
  "exponent d a =
     (if 1 \<le> a then scan_up a 0 (nat (emax d)) else scan_down a (- 1) (nat (- emin d - 1)))"

text \<open>Rounding to the nearest integer, a tie to the even one.\<close>

definition round_half_even :: "real \<Rightarrow> int" where
  "round_half_even r =
     (let f = \<lfloor>r\<rfloor>
      in if r - of_int f < 1 / 2 then f
         else if 1 / 2 < r - of_int f then f + 1
         else if even f then f else f + 1)"

definition signed_zero :: "bool \<Rightarrow> npfloat" where
  "signed_zero s = (if s then NZero else Fin 0)"

definition signed_inf :: "bool \<Rightarrow> npfloat" where
  "signed_inf s = (if s then NInf else PInf)"

text \<open>
  Rounding a magnitude \<open>a \<ge> 0\<close> with the sign \<open>s\<close> (true for minus) to the nearest
  float of a format, ties to even: the result is a multiple of the spacing
  \<open>2 powi (e - precision + 1)\<close> at the exponent of \<open>a\<close>. What rounds beyond the largest
  finite float is an infinity; what rounds to nothing is a zero of the same sign.
\<close>

definition fround_mag :: "dtype \<Rightarrow> bool \<Rightarrow> real \<Rightarrow> npfloat" where
  "fround_mag d s a =
     (if a = 0 then signed_zero s
      else
        let e = exponent d a;
            q = 2 powi (e - precision d + 1);
            n = round_half_even (a / q);
            y = of_int n * q
        in if 2 powi (emax d + 1) \<le> y then signed_inf s
           else if n = 0 then signed_zero s
           else Fin (if s then - y else y))"

definition fround :: "dtype \<Rightarrow> real \<Rightarrow> npfloat" where
  "fround d x = fround_mag d (x < 0) \<bar>x\<bar>"

text \<open>Conversion of a float to a format (\<^verbatim>\<open>astype\<close> on one element).\<close>

fun np_cast :: "dtype \<Rightarrow> npfloat \<Rightarrow> npfloat" where
  "np_cast d (Fin x) = fround d x"
| "np_cast d a = a"

fun negative :: "npfloat \<Rightarrow> bool" where
  "negative (Fin x) = (x < 0)"
| "negative NZero = True"
| "negative NInf = True"
| "negative a = False"

fun is_zero :: "npfloat \<Rightarrow> bool" where
  "is_zero (Fin x) = (x = 0)"
| "is_zero NZero = True"
| "is_zero a = False"

fun is_inf :: "npfloat \<Rightarrow> bool" where
  "is_inf PInf = True"
| "is_inf NInf = True"
| "is_inf a = False"

fun is_nan :: "npfloat \<Rightarrow> bool" where
  "is_nan NaN = True"
| "is_nan a = False"

fun mag :: "npfloat \<Rightarrow> real" where
  "mag (Fin x) = \<bar>x\<bar>"
| "mag a = 0"

text \<open>
  The arithmetic of a format on two floats of that format: the exact result, rounded.
  Nothing raises: a division by zero is an infinity, and \<^verbatim>\<open>0/0\<close>,
  \<^verbatim>\<open>inf - inf\<close>, \<^verbatim>\<open>0 * inf\<close> and \<^verbatim>\<open>inf/inf\<close> are NaN (numpy warns and goes on).
\<close>

fun np_neg :: "npfloat \<Rightarrow> npfloat" where
  "np_neg (Fin x) = (if x = 0 then NZero else Fin (- x))"
| "np_neg NZero = Fin 0"
| "np_neg PInf = NInf"
| "np_neg NInf = PInf"
| "np_neg NaN = NaN"

fun np_add :: "dtype \<Rightarrow> npfloat \<Rightarrow> npfloat \<Rightarrow> npfloat" where
  "np_add d NaN b = NaN"
| "np_add d a NaN = NaN"
| "np_add d PInf NInf = NaN"
| "np_add d NInf PInf = NaN"
| "np_add d PInf b = PInf"
| "np_add d a PInf = PInf"
| "np_add d NInf b = NInf"
| "np_add d a NInf = NInf"
| "np_add d NZero NZero = NZero"
| "np_add d NZero (Fin y) = fround d y"
| "np_add d (Fin x) NZero = fround d x"
| "np_add d (Fin x) (Fin y) = (if x + y = 0 then Fin 0 else fround d (x + y))"

definition np_sub :: "dtype \<Rightarrow> npfloat \<Rightarrow> npfloat \<Rightarrow> npfloat" where
  "np_sub d a b = np_add d a (np_neg b)"

definition np_mul :: "dtype \<Rightarrow> npfloat \<Rightarrow> npfloat \<Rightarrow> npfloat" where
  "np_mul d a b =
     (if is_nan a \<or> is_nan b then NaN
      else
        let s = (negative a \<noteq> negative b)
        in if is_inf a \<or> is_inf b then (if is_zero a \<or> is_zero b then NaN else signed_inf s)
           else fround_mag d s (mag a * mag b))"

definition np_div :: "dtype \<Rightarrow> npfloat \<Rightarrow> npfloat \<Rightarrow> npfloat" where
  "np_div d a b =
     (if is_nan a \<or> is_nan b then NaN
      else
        let s = (negative a \<noteq> negative b)
        in if is_inf a then (if is_inf b then NaN else signed_inf s)
           else if is_inf b then signed_zero s
           else if is_zero b then (if is_zero a then NaN else signed_inf s)
           else fround_mag d s (mag a / mag b))"

text \<open>
  \<^verbatim>\<open>np.sum\<close> of a 1-D array takes the element type and the elements and returns a
  float of that type. In which order it adds is decided inside numpy, so it is a
  parameter of the functions below.
\<close>

type_synonym np_sum = "dtype \<Rightarrow> npfloat list \<Rightarrow> npfloat"

subsection \<open>Two-dimensional arrays\<close>

text \<open>
  A 2-D numpy array: its element type, its number of columns and its rows. The number of
  columns is kept apart from the rows because an array may have no row and still have
  columns (shape \<^verbatim>\<open>(0, n)\<close>). A 1-D array is a list.
\<close>

datatype ndarray = NDArray (dtype: dtype) (ncols: nat) (rows: "npfloat list list")

definition np_shape :: "ndarray \<Rightarrow> nat \<times> nat" where
  "np_shape a = (length (rows a), ncols a)"

definition well_shaped :: "ndarray \<Rightarrow> bool" where
  "well_shaped a = list_all (\<lambda>r. length r = ncols a) (rows a)"

text \<open>\<^verbatim>\<open>a[i, :]\<close>: a negative index counts from the end; out of range is an IndexError.\<close>

definition np_row :: "ndarray \<Rightarrow> int \<Rightarrow> error + npfloat list" where
  "np_row a i =
     (let n = int (length (rows a));
          j = (if i < 0 then i + n else i)
      in if 0 \<le> j \<and> j < n then Inr (rows a ! nat j) else Inl IndexError)"

text \<open>
  \<^verbatim>\<open>xs[lo:hi]\<close>: each bound is counted from the end when negative and then clipped
  to the length; the slice is empty when the upper bound is not above the lower one.
\<close>

definition slice_bound :: "nat \<Rightarrow> int \<Rightarrow> nat" where
  "slice_bound n i = (if i < 0 then nat (max (i + int n) 0) else min (nat i) n)"

definition py_slice :: "int \<Rightarrow> int \<Rightarrow> 'a list \<Rightarrow> 'a list" where
  "py_slice lo hi xs =
     (let a = slice_bound (length xs) lo;
          b = slice_bound (length xs) hi
      in take (b - a) (drop a xs))"

text \<open>\<^verbatim>\<open>a[r0:r1, c0:c1]\<close>\<close>

definition np_slice2 :: "ndarray \<Rightarrow> int \<Rightarrow> int \<Rightarrow> int \<Rightarrow> int \<Rightarrow> ndarray" where
  "np_slice2 a r0 r1 c0 c1 =
     NDArray (dtype a)
       (slice_bound (ncols a) c1 - slice_bound (ncols a) c0)
       (map (py_slice c0 c1) (py_slice r0 r1 (rows a)))"

text \<open>
  Broadcasting of two axes: equal lengths, or one of them is 1 and is repeated; anything
  else is a ValueError.
\<close>

definition broadcast_dim :: "nat \<Rightarrow> nat \<Rightarrow> nat option" where
  "broadcast_dim m n =
     (if m = n then Some m else if m = 1 then Some n else if n = 1 then Some m else None)"

definition stretch :: "nat \<Rightarrow> 'a list \<Rightarrow> 'a list" where
  "stretch n xs = (case xs of [x] \<Rightarrow> replicate n x | _ \<Rightarrow> xs)"

definition promote :: "dtype \<Rightarrow> dtype \<Rightarrow> dtype" where
  "promote d e = (if d = Float32 \<and> e = Float32 then Float32 else Float64)"

text \<open>
  \<^verbatim>\<open>a - b\<close> on 2-D arrays and on 1-D arrays: both operands are converted to the
  common element type and subtracted in it, element by element. A 1-D array is given with
  its element type.
\<close>

definition np_subtract :: "ndarray \<Rightarrow> ndarray \<Rightarrow> error + ndarray" where
  "np_subtract a b =
     (case (broadcast_dim (length (rows a)) (length (rows b)),
            broadcast_dim (ncols a) (ncols b)) of
        (Some r, Some c) \<Rightarrow>
          (let d = promote (dtype a) (dtype b)
           in Inr (NDArray d c
                (map2 (\<lambda>x y. map2 (\<lambda>u v. np_sub d (np_cast d u) (np_cast d v))
                                (stretch c x) (stretch c y))
                   (stretch r (rows a)) (stretch r (rows b)))))
      | _ \<Rightarrow> Inl ValueError)"

definition np_subtract1 ::
  "dtype \<Rightarrow> npfloat list \<Rightarrow> dtype \<Rightarrow> npfloat list \<Rightarrow> error + npfloat list" where
  "np_subtract1 dx xs dy ys =
     (case broadcast_dim (length xs) (length ys) of
        Some n \<Rightarrow>
          (let d = promote dx dy
           in Inr (map2 (\<lambda>u v. np_sub d (np_cast d u) (np_cast d v))
                     (stretch n xs) (stretch n ys)))
      | None \<Rightarrow> Inl ValueError)"

text \<open>
  \<^verbatim>\<open>s * a\<close> for a numpy scalar, given with its type, and a float array. The notebook
  runs on Python 3.6, so on a NumPy before version 2, where the element type of the
  product is found from the scalar's value: it is the array's type, unless the array is
  single precision and the scalar is a double-precision one, finite and outside the range
  \<^verbatim>\<open>-3.4e38 < s < 3.4e38\<close> that NumPy takes for single precision; then it is double
  precision. The number below is the double \<^verbatim>\<open>3.4e38\<close>. Scalar and elements are
  converted to that type and multiplied in it. For the double-precision array of the PSF
  image the product is double precision whatever the scalar.
\<close>

definition fits_single :: "npfloat \<Rightarrow> bool" where
  "fits_single s =
     (case s of Fin x \<Rightarrow> \<bar>x\<bar> < 339999999999999996123846586046231871488 | _ \<Rightarrow> True)"

definition scalar_result_type :: "dtype \<Rightarrow> npfloat \<Rightarrow> dtype \<Rightarrow> dtype" where
  "scalar_result_type ds s d =
     (if d = Float32 \<and> ds = Float64 \<and> \<not> fits_single s then Float64 else d)"

definition np_scalar_mul1 :: "dtype \<Rightarrow> npfloat \<Rightarrow> dtype \<Rightarrow> npfloat list \<Rightarrow> npfloat list" where
  "np_scalar_mul1 ds s d xs =
     (let r = scalar_result_type ds s d
      in map (\<lambda>x. np_mul r (np_cast r s) (np_cast r x)) xs)"

definition np_scalar_mul :: "dtype \<Rightarrow> npfloat \<Rightarrow> ndarray \<Rightarrow> ndarray" where
  "np_scalar_mul ds s a =
     NDArray (scalar_result_type ds s (dtype a)) (ncols a)
       (map (np_scalar_mul1 ds s (dtype a)) (rows a))"

text \<open>\<^verbatim>\<open>a.astype(np.float32)\<close>: every element is converted, which rounds it.\<close>

definition astype :: "dtype \<Rightarrow> ndarray \<Rightarrow> ndarray" where
  "astype d a = NDArray d (ncols a) (map (map (np_cast d)) (rows a))"

subsection \<open>Images and exposures\<close>

text \<open>
  An afw image is an array with the pixel position of its first element. An Exposure
  has an image plane, a mask plane, a variance plane and a coordinate transform
  (\<^verbatim>\<open>getWcs().skyToPixel\<close>, which answers with a pixel position or raises).
\<close>

datatype SpherePoint = SpherePoint real real

type_synonym wcs = "SpherePoint \<Rightarrow> error + real \<times> real"

datatype afw_image = Image (origin: "int \<times> int") (array: ndarray)

datatype afw_mask = Mask (mask_origin: "int \<times> int") (mask_bits: "nat list list")

record exposure =
  image_plane :: afw_image
  mask_plane :: afw_mask
  variance_plane :: afw_image
  getWcs :: wcs

definition getX0 :: "exposure \<Rightarrow> int" where
  "getX0 e = fst (origin (image_plane e))"

definition getY0 :: "exposure \<Rightarrow> int" where
  "getY0 e = snd (origin (image_plane e))"

text \<open>
  \<^verbatim>\<open>afwImage.ImageF(a)\<close> for an array \<^verbatim>\<open>a\<close>: a single-precision image at the
  origin; an array of another element type is refused. \<^verbatim>\<open>afwImage.ImageF(img)\<close> for
  an image is that image again.
\<close>

definition ImageF :: "ndarray \<Rightarrow> error + afw_image" where
  "ImageF a = (if dtype a = Float32 then Inr (Image (0, 0) a) else Inl TypeError)"

subsection \<open>The store of exposures\<close>

text \<open>
  \<^verbatim>\<open>clone\<close> and \<^verbatim>\<open>setImage\<close> act on objects, so exposures live in a store:
  a map from addresses to exposures and the next free address. \<^verbatim>\<open>clone\<close> is a deep
  copy at a new address; \<^verbatim>\<open>setImage\<close> replaces the image plane of the object at
  one address.
\<close>

type_synonym addr = nat

record heap =
  next_addr :: addr
  objs :: "addr \<Rightarrow> exposure option"

definition clone :: "heap \<Rightarrow> addr \<Rightarrow> error + (addr \<times> heap)" where
  "clone h a =
     (case objs h a of
        None \<Rightarrow> Inl NameError
      | Some e \<Rightarrow>
          Inr (next_addr h,
               h\<lparr>next_addr := Suc (next_addr h), objs := (objs h)(next_addr h \<mapsto> e)\<rparr>))"

definition setImage :: "heap \<Rightarrow> addr \<Rightarrow> afw_image \<Rightarrow> error + heap" where
  "setImage h a img =
     (case objs h a of
        None \<Rightarrow> Inl NameError
      | Some e \<Rightarrow> Inr (h\<lparr>objs := (objs h)(a \<mapsto> e\<lparr>image_plane := img\<rparr>)\<rparr>))"

subsection \<open>Scaling the PSF and subtracting it\<close>

text \<open>
  \<^verbatim>\<open>
  cutout_nx, cutout_ny = np.shape(cutout.image.array)
  kernel_nx, kernel_ny = np.shape(kernel_image.array)
  cutout_slice = cutout.image.array[cutout_nx//2, :]
  kernel_slice = kernel_image.array[kernel_nx//2, :]
  scaling = np.sum(cutout_slice)/np.sum(kernel_slice)
  offset_nx = kernel_nx - cutout_nx
  offset_ny = kernel_ny - cutout_ny
  \<close>
\<close>

definition cutout_slice :: "ndarray \<Rightarrow> error + npfloat list" where
  "cutout_slice cutout_array =
     (case np_shape cutout_array of
        (cutout_nx, cutout_ny) \<Rightarrow> np_row cutout_array (int cutout_nx div 2))"

definition kernel_slice :: "ndarray \<Rightarrow> error + npfloat list" where
  "kernel_slice kernel_array =
     (case np_shape kernel_array of
        (kernel_nx, kernel_ny) \<Rightarrow> np_row kernel_array (int kernel_nx div 2))"

text \<open>
  The two sums have the element types of their arrays; the quotient of two numpy scalars
  is taken in their common type.
\<close>

definition scaling :: "np_sum \<Rightarrow> ndarray \<Rightarrow> ndarray \<Rightarrow> error + npfloat" where
  "scaling np_sum cutout_array kernel_array =
     (case cutout_slice cutout_array of
        Inl e \<Rightarrow> Inl e
      | Inr cs \<Rightarrow>
          (case kernel_slice kernel_array of
             Inl e \<Rightarrow> Inl e
           | Inr ks \<Rightarrow>
               (let d = promote (dtype cutout_array) (dtype kernel_array)
                in Inr (np_div d (np_cast d (np_sum (dtype cutout_array) cs))
                                 (np_cast d (np_sum (dtype kernel_array) ks))))))"

definition offset_nx :: "ndarray \<Rightarrow> ndarray \<Rightarrow> int" where
  "offset_nx cutout_array kernel_array =
     int (fst (np_shape kernel_array)) - int (fst (np_shape cutout_array))"

definition offset_ny :: "ndarray \<Rightarrow> ndarray \<Rightarrow> int" where
  "offset_ny cutout_array kernel_array =
     int (snd (np_shape kernel_array)) - int (snd (np_shape cutout_array))"

text \<open>
  The residual along the slice, as the third \<^verbatim>\<open>plt.step\<close> draws it:
  \<^verbatim>\<open>cutout_slice - (scaling * kernel_slice[offset_nx//2:-offset_nx//2])\<close>,
  a function of the two slices with their element types, the scale and the offset. The
  scale has the type of the quotient of the two sums, the common type of the two arrays.
  In Python \<^verbatim>\<open>-offset_nx//2\<close> is \<^verbatim>\<open>(-offset_nx)//2\<close>, and \<^verbatim>\<open>//\<close> rounds
  towards minus infinity, as \<open>div\<close> on \<open>int\<close> does.
\<close>

definition residual_slice ::
  "dtype \<Rightarrow> npfloat list \<Rightarrow> dtype \<Rightarrow> npfloat list \<Rightarrow> npfloat \<Rightarrow> int \<Rightarrow> error + npfloat list" where
  "residual_slice dc cs dk ks s ox =
     np_subtract1 dc cs (scalar_result_type (promote dc dk) s dk)
       (np_scalar_mul1 (promote dc dk) s dk (py_slice (ox div 2) ((- ox) div 2) ks))"

text \<open>
  \<^verbatim>\<open>kernel_image.array[offset_nx//2:-offset_nx//2, offset_ny//2:-offset_ny//2]\<close>
\<close>

definition kernel_crop :: "ndarray \<Rightarrow> int \<Rightarrow> int \<Rightarrow> ndarray" where
  "kernel_crop kernel_array ox oy =
     np_slice2 kernel_array (ox div 2) ((- ox) div 2) (oy div 2) ((- oy) div 2)"

text \<open>
  \<^verbatim>\<open>
  cutout_minus_psf = cutout.image.array - \
      scaling * kernel_image.array[offset_nx//2:-offset_nx//2,
                                   offset_ny//2:-offset_ny//2]
  \<close>
\<close>

definition cutout_minus_psf :: "ndarray \<Rightarrow> ndarray \<Rightarrow> npfloat \<Rightarrow> int \<Rightarrow> int \<Rightarrow> error + ndarray" where
  "cutout_minus_psf cutout_array kernel_array s ox oy =
     np_subtract cutout_array
       (np_scalar_mul (promote (dtype cutout_array) (dtype kernel_array)) s
          (kernel_crop kernel_array ox oy))"

text \<open>
  \<^verbatim>\<open>
  residual = cutout.clone()
  residual.setImage(afwImage.ImageF(afwImage.ImageF(cutout_minus_psf.astype(np.float32))))
  \<close>
  The result is the address of the residual and the store after the two statements.
\<close>

definition residual :: "heap \<Rightarrow> addr \<Rightarrow> ndarray \<Rightarrow> error + (addr \<times> heap)" where
  "residual h cutout cmp =
     (case clone h cutout of
        Inl e \<Rightarrow> Inl e
      | Inr (r, h1) \<Rightarrow>
          (case ImageF (astype Float32 cmp) of
             Inl e \<Rightarrow> Inl e
           | Inr img \<Rightarrow>
               (case setImage h1 r img of
                  Inl e \<Rightarrow> Inl e
                | Inr h2 \<Rightarrow> Inr (r, h2))))"

subsection \<open>Collaborators of the cutout functions\<close>

text \<open>
  \<^verbatim>\<open>afwGeom.BoxI(corner, extent)\<close> is kept as the two values the code hands to it.
  The data id is the dictionary with the keys \<^verbatim>\<open>tract\<close>, \<^verbatim>\<open>patch\<close> and
  \<^verbatim>\<open>filter\<close>.
\<close>

datatype BoxI = BoxI "int \<times> int" "int \<times> int"

record dataId =
  tract :: int
  patch :: string
  filter_name :: string

datatype patchInfo = PatchInfo (getIndex: "int \<times> int")

record tractInfo =
  getId :: int
  findPatch :: "SpherePoint \<Rightarrow> error + patchInfo"
  tractWcs :: wcs

datatype skyMap = SkyMap (findTract: "SpherePoint \<Rightarrow> error + tractInfo")

text \<open>
  The butler answers \<^verbatim>\<open>butler.get(name)\<close> with a sky map and
  \<^verbatim>\<open>butler.get(name, bbox=..., immediate=True, dataId=...)\<close> with an exposure, or
  raises.
\<close>

record butler =
  get_skyMap :: "string \<Rightarrow> error + skyMap"
  get_sub :: "string \<Rightarrow> BoxI \<Rightarrow> dataId \<Rightarrow> error + exposure"

text \<open>
  The label of a curve: a string, or \<^verbatim>\<open>'PSF scaled by %.2f' % scaling\<close>, kept as
  the format and the number put into it.
\<close>

datatype step_label = Label string | LabelFormat string npfloat

datatype plt_call =
    Figure int
  | Clf
  | Imshow ndarray real real
  | Colorbar
  | Scatter real real
  | Title string
  | Savefig string
  | Show
  | Step "npfloat list" "npfloat list" step_label
  | Xlabel string
  | Ylabel string
  | Legend

datatype display = Display "int option" string

datatype display_call =
    Create
  | Mtv exposure
  | Scale string string
  | Dot string real real string
  | ShowColorbar

text \<open>
  The libraries the notebook imports: the conversion \<^verbatim>\<open>afwGeom.PointI\<close> of a
  position to integer pixels, \<^verbatim>\<open>writeFits\<close>, \<^verbatim>\<open>zscale.get_limits\<close>,
  \<^verbatim>\<open>matplotlib.pyplot\<close>, and \<^verbatim>\<open>afwDisplay.Display\<close> with its methods
  (\<open>Create\<close> is the constructor). A call that returns nothing answers \<open>None\<close>, or
  \<open>Some e\<close> when it raises \<open>e\<close>.
\<close>

record env =
  PointI :: "real \<times> real \<Rightarrow> error + int \<times> int"
  writeFits :: "exposure \<Rightarrow> string \<Rightarrow> error option"
  zscale_get_limits :: "ndarray \<Rightarrow> error + real \<times> real"
  plt :: "plt_call \<Rightarrow> error option"
  afwDisplay :: "display \<Rightarrow> display_call \<Rightarrow> error option"

subsection \<open>Calls and their trace\<close>

datatype event =
    ButlerGet string "(BoxI \<times> dataId) option"
  | WriteFits string
  | Plt plt_call
  | Disp display display_call

text \<open>
  A computation is its outcome (an error or a value) and the calls it made, oldest
  first. \<open>io_bind\<close> is sequencing: an error ends the computation where it is raised.
\<close>

type_synonym 'a io = "(error + 'a) \<times> event list"

definition io_return :: "'a \<Rightarrow> 'a io" where
  "io_return x = (Inr x, [])"

definition io_lift :: "error + 'a \<Rightarrow> 'a io" where
  "io_lift r = (r, [])"

definition io_call :: "event \<Rightarrow> error + 'a \<Rightarrow> 'a io" where
  "io_call ev r = (r, [ev])"

definition io_do :: "event \<Rightarrow> error option \<Rightarrow> unit io" where
  "io_do ev r = ((case r of None \<Rightarrow> Inr () | Some e \<Rightarrow> Inl e), [ev])"

definition io_bind :: "'a io \<Rightarrow> ('a \<Rightarrow> 'b io) \<Rightarrow> 'b io" where
  "io_bind m f =
     (case m of
        (Inl e, l) \<Rightarrow> (Inl e, l)
      | (Inr x, l) \<Rightarrow> (case f x of (r, l') \<Rightarrow> (r, l @ l')))"

definition io_when :: "bool \<Rightarrow> unit io \<Rightarrow> unit io" where
  "io_when b m = (if b then m else io_return ())"

subsection \<open>The compositor cells, run in order\<close>

text \<open>
  The notebook's names that one cell binds and a later cell reads. \<^verbatim>\<open>cutout\<close> and
  \<^verbatim>\<open>kernel_image\<close> are bound by earlier cells; the other names are bound by the
  cells below, and are \<open>None\<close> while unbound. The cells run top to bottom, from
  \<^verbatim>\<open>frame = 3\<close> to the statement that stores the image of \<^verbatim>\<open>residual\<close>, and the
  run stops at the first exception.
\<close>

record notebook =
  nb_heap :: heap
  nb_cutout :: addr
  nb_kernel_image :: afw_image
  nb_scaling :: "npfloat option"
  nb_offset_nx :: "int option"
  nb_offset_ny :: "int option"
  nb_cutout_minus_psf :: "ndarray option"
  nb_residual :: "addr option"

definition lookup :: "'a option \<Rightarrow> error + 'a" where
  "lookup v = (case v of None \<Rightarrow> Inl NameError | Some x \<Rightarrow> Inr x)"

definition cutout_image_array :: "notebook \<Rightarrow> error + ndarray" where
  "cutout_image_array nb =
     (case objs (nb_heap nb) (nb_cutout nb) of
        None \<Rightarrow> Inl NameError
      | Some e \<Rightarrow> Inr (array (image_plane e)))"

text \<open>
  \<^verbatim>\<open>np.arange(n) - n/2\<close>: the integers from 0 to \<open>n - 1\<close> and the quotient, as
  doubles, and their differences.
\<close>

definition arange_centred :: "nat \<Rightarrow> npfloat list" where
  "arange_centred n =
     map (\<lambda>i. np_sub Float64 (fround Float64 (real i)) (fround Float64 (real n / 2))) [0..<n]"

text \<open>
  \<^verbatim>\<open>plt.step(x, y, ...)\<close>: matplotlib raises a ValueError when \<^verbatim>\<open>x\<close> and
  \<^verbatim>\<open>y\<close> differ in length. The call is recorded with its data and its label; the
  line width, style and colour are constants of the three calls.
\<close>

definition plt_step :: "env \<Rightarrow> npfloat list \<Rightarrow> npfloat list \<Rightarrow> step_label \<Rightarrow> unit io" where
  "plt_step env xs ys lab =
     (if length xs = length ys then io_do (Plt (Step xs ys lab)) (plt env (Step xs ys lab))
      else io_call (Plt (Step xs ys lab)) (Inl ValueError))"

text \<open>
  \<^verbatim>\<open>
  cutout_nx, cutout_ny = np.shape(cutout.image.array)
  kernel_nx, kernel_ny = np.shape(kernel_image.array)
  cutout_slice = cutout.image.array[cutout_nx//2, :]
  kernel_slice = kernel_image.array[kernel_nx//2, :]
  scaling = np.sum(cutout_slice)/np.sum(kernel_slice)
  plt.step(np.arange(cutout_nx) - cutout_nx/2, cutout_slice, ...)
  plt.step(np.arange(kernel_nx) - kernel_nx/2, scaling * kernel_slice, ...)
  offset_nx = kernel_nx - cutout_nx
  offset_ny = kernel_ny - cutout_ny
  plt.step(np.arange(cutout_nx) - cutout_nx/2,
           cutout_slice - (scaling * kernel_slice[offset_nx//2:-offset_nx//2]), ...)
  plt.xlabel('x')
  plt.ylabel('counts in pixel')
  plt.legend()
  plt.show()
  \<close>
  \<open>scaling_cell_body\<close> is these statements on the two arrays; its value is what they
  bind to \<^verbatim>\<open>scaling\<close>, \<^verbatim>\<open>offset_nx\<close> and \<^verbatim>\<open>offset_ny\<close>.
\<close>

definition scaling_cell_body ::
  "env \<Rightarrow> np_sum \<Rightarrow> ndarray \<Rightarrow> ndarray \<Rightarrow> (npfloat \<times> int \<times> int) io" where
  "scaling_cell_body env np_sum ca ka =
     (let cutout_nx = fst (np_shape ca);
          kernel_nx = fst (np_shape ka)
      in
      io_bind (io_lift (cutout_slice ca))
      (\<lambda>cs. io_bind (io_lift (kernel_slice ka))
      (\<lambda>ks. io_bind (io_lift (scaling np_sum ca ka))
      (\<lambda>s. io_bind (plt_step env (arange_centred cutout_nx) cs (Label ''Postage Stamp slice''))
      (\<lambda>_. io_bind (plt_step env (arange_centred kernel_nx)
                       (np_scalar_mul1 (promote (dtype ca) (dtype ka)) s (dtype ka) ks)
                       (LabelFormat ''PSF scaled by %.2f'' s))
      (\<lambda>_. let ox = offset_nx ca ka;
               oy = offset_ny ca ka
           in
      io_bind (io_lift (residual_slice (dtype ca) cs (dtype ka) ks s ox))
      (\<lambda>rs. io_bind (plt_step env (arange_centred cutout_nx) rs
                        (Label ''Postage stamp - scaled PSF''))
      (\<lambda>_. io_bind (io_do (Plt (Xlabel ''x'')) (plt env (Xlabel ''x'')))
      (\<lambda>_. io_bind (io_do (Plt (Ylabel ''counts in pixel''))
                       (plt env (Ylabel ''counts in pixel'')))
      (\<lambda>_. io_bind (io_do (Plt Legend) (plt env Legend))
      (\<lambda>_. io_bind (io_do (Plt Show) (plt env Show))
      (\<lambda>_. io_return (s, ox, oy)))))))))))))"

text \<open>
  The cell: \<^verbatim>\<open>frame = 3\<close>, \<^verbatim>\<open>plt.figure(frame)\<close>, the statements above on
  \<^verbatim>\<open>cutout.image.array\<close> and \<^verbatim>\<open>kernel_image.array\<close>, and the three names bound.
\<close>

definition cell_scaling :: "env \<Rightarrow> np_sum \<Rightarrow> notebook \<Rightarrow> notebook io" where
  "cell_scaling env np_sum nb =
     (let frame = 3 in
      io_bind (io_do (Plt (Figure frame)) (plt env (Figure frame)))
      (\<lambda>_. io_bind (io_lift (cutout_image_array nb))
      (\<lambda>ca. io_bind (scaling_cell_body env np_sum ca (array (nb_kernel_image nb)))
      (\<lambda>v. case v of (s, ox, oy) \<Rightarrow>
              io_return (nb\<lparr>nb_scaling := Some s,
                             nb_offset_nx := Some ox,
                             nb_offset_ny := Some oy\<rparr>)))))"

definition cell_subtract :: "notebook \<Rightarrow> error + notebook" where
  "cell_subtract nb =
     (case cutout_image_array nb of
        Inl e \<Rightarrow> Inl e
      | Inr ca \<Rightarrow>
          (case lookup (nb_scaling nb) of
             Inl e \<Rightarrow> Inl e
           | Inr s \<Rightarrow>
               (case lookup (nb_offset_nx nb) of
                  Inl e \<Rightarrow> Inl e
                | Inr ox \<Rightarrow>
                    (case lookup (nb_offset_ny nb) of
                       Inl e \<Rightarrow> Inl e
                     | Inr oy \<Rightarrow>
                         (case cutout_minus_psf ca (array (nb_kernel_image nb)) s ox oy of
                            Inl e \<Rightarrow> Inl e
                          | Inr d \<Rightarrow> Inr (nb\<lparr>nb_cutout_minus_psf := Some d\<rparr>))))))"

definition cell_residual :: "notebook \<Rightarrow> error + notebook" where
  "cell_residual nb =
     (case lookup (nb_cutout_minus_psf nb) of
        Inl e \<Rightarrow> Inl e
      | Inr d \<Rightarrow>
          (case residual (nb_heap nb) (nb_cutout nb) d of
             Inl e \<Rightarrow> Inl e
           | Inr (r, h) \<Rightarrow> Inr (nb\<lparr>nb_heap := h, nb_residual := Some r\<rparr>)))"

definition run_compositor :: "env \<Rightarrow> np_sum \<Rightarrow> notebook \<Rightarrow> notebook io" where
  "run_compositor env np_sum nb =
     io_bind (cell_scaling env np_sum nb)
     (\<lambda>nb1. io_bind (io_lift (cell_subtract nb1))
     (\<lambda>nb2. io_lift (cell_residual nb2)))"

text \<open>What a run leaves as the residual: the array of the image plane of \<^verbatim>\<open>residual\<close>.\<close>

definition residual_array :: "error + notebook \<Rightarrow> error + ndarray option" where
  "residual_array r =
     (case r of
        Inl e \<Rightarrow> Inl e
      | Inr nb \<Rightarrow>
          Inr (case nb_residual nb of
                 None \<Rightarrow> None
               | Some a \<Rightarrow> map_option (\<lambda>e. array (image_plane e)) (objs (nb_heap nb) a)))"

subsection \<open>Strings and flags\<close>

text \<open>\<^verbatim>\<open>"%d" % n\<close> and \<^verbatim>\<open>"%s" % n\<close> for an integer \<^verbatim>\<open>n\<close>.\<close>

fun digits_nat :: "nat \<Rightarrow> string" where
  "digits_nat n =
     (if n < 10 then [''0123456789'' ! n]
      else digits_nat (n div 10) @ [''0123456789'' ! (n mod 10)])"

definition str_int :: "int \<Rightarrow> string" where
  "str_int i = (if i < 0 then CHR ''-'' # digits_nat (nat (- i)) else digits_nat (nat i))"

text \<open>
  \<^verbatim>\<open>saveplot\<close> and \<^verbatim>\<open>savefits\<close> are \<^verbatim>\<open>False\<close>, \<^verbatim>\<open>True\<close> or a file name.
  The empty string is false, as every empty Python string is.
\<close>

datatype pyflag = PyBool bool | PyStr string

fun truthy :: "pyflag \<Rightarrow> bool" where
  "truthy (PyBool b) = b"
| "truthy (PyStr s) = (s \<noteq> [])"

fun filename_of :: "pyflag \<Rightarrow> string \<Rightarrow> string" where
  "filename_of (PyStr s) default_name = s"
| "filename_of (PyBool b) default_name = default_name"

subsection \<open>The cutout functions\<close>

text \<open>
  \<^verbatim>\<open>
  def cutout_coadd_spherepoint(butler, radec, filter='r', datasetType='deepCoadd',
                               skymap=None, cutoutSideLength=51, **kwargs):
      cutoutSize = afwGeom.ExtentI(cutoutSideLength, cutoutSideLength)
      if skymap is None:
          skymap = butler.get("%s_skyMap" % datasetType)
      tractInfo = skymap.findTract(radec)
      patchInfo = tractInfo.findPatch(radec)
      xy = afwGeom.PointI(tractInfo.getWcs().skyToPixel(radec))
      bbox = afwGeom.BoxI(xy - cutoutSize//2, cutoutSize)
      coaddId = {'tract': tractInfo.getId(), 'patch': "%d,%d" % patchInfo.getIndex(),
                 'filter': filter}
      cutout_image = butler.get(datasetType+'_sub', bbox=bbox, immediate=True, dataId=coaddId)
      return cutout_image
  \<close>
\<close>

definition cutout_coadd_spherepoint ::
  "env \<Rightarrow> butler \<Rightarrow> SpherePoint \<Rightarrow> string \<Rightarrow> string \<Rightarrow> skyMap option \<Rightarrow> int \<Rightarrow> exposure io" where
  "cutout_coadd_spherepoint env butler radec filt datasetType skymap cutoutSideLength =
     (let cutoutSize = (cutoutSideLength, cutoutSideLength) in
      io_bind
        (case skymap of
           None \<Rightarrow> io_call (ButlerGet (datasetType @ ''_skyMap'') None)
                     (get_skyMap butler (datasetType @ ''_skyMap''))
         | Some sm \<Rightarrow> io_return sm)
        (\<lambda>skymap. io_bind (io_lift (findTract skymap radec))
        (\<lambda>tractInfo. io_bind (io_lift (findPatch tractInfo radec))
        (\<lambda>patchInfo. io_bind (io_lift (tractWcs tractInfo radec))
        (\<lambda>pixel. io_bind (io_lift (PointI env pixel))
        (\<lambda>xy.
           let bbox = BoxI (fst xy - fst cutoutSize div 2, snd xy - snd cutoutSize div 2)
                        cutoutSize;
               coaddId = \<lparr>tract = getId tractInfo,
                          patch = str_int (fst (getIndex patchInfo)) @ '','' @
                                  str_int (snd (getIndex patchInfo)),
                          filter_name = filt\<rparr>
           in io_call (ButlerGet (datasetType @ ''_sub'') (Some (bbox, coaddId)))
                (get_sub butler (datasetType @ ''_sub'') bbox coaddId)))))))"

text \<open>
  \<^verbatim>\<open>
  def cutout_coadd_ra_dec(butler, ra, dec, filter='r', datasetType='deepCoadd', **kwargs):
      radec = afwGeom.SpherePoint(ra, dec, afwGeom.degrees)
      return cutout_coadd_spherepoint(butler, radec, filter=filter, datasetType=datasetType)
  \<close>
\<close>

definition cutout_coadd_ra_dec ::
  "env \<Rightarrow> butler \<Rightarrow> real \<Rightarrow> real \<Rightarrow> string \<Rightarrow> string \<Rightarrow> exposure io" where
  "cutout_coadd_ra_dec env butler ra dec filt datasetType =
     (let radec = SpherePoint ra dec
      in cutout_coadd_spherepoint env butler radec filt datasetType None 51)"

text \<open>
  \<^verbatim>\<open>
  def make_cutout_image(butler, ra, dec, filter='r', vmin=None, vmax=None, label=None,
                        show=True, saveplot=False, savefits=False,
                        datasetType='deepCoadd'):
      cutout_image = cutout_coadd_ra_dec(butler, ra, dec, filter=filter,
                                         datasetType='deepCoadd')
      if savefits:
          if isinstance(savefits, str): filename = savefits
          else: filename = 'postage-stamp.fits'
          cutout_image.writeFits(filename)
      radec = afwGeom.SpherePoint(ra, dec, afwGeom.degrees)
      xy = cutout_image.getWcs().skyToPixel(radec)
      if vmin is None or vmax is None:
          vmin, vmax = zscale.get_limits(cutout_image.image.array)
      plt.imshow(cutout_image.image.array, vmin=vmin, vmax=vmax, ...)
      plt.colorbar()
      plt.scatter(xy.getX() - cutout_image.getX0(), xy.getY() - cutout_image.getY0(), ...)
      if label is not None: plt.title(label)
      if saveplot:
          if isinstance(saveplot, str): filename = saveplot
          else: filename = 'postage-stamp.png'
          plt.savefig(filename)
      if show: plt.show()
      return cutout_image
  \<close>
\<close>

definition make_cutout_image ::
  "env \<Rightarrow> butler \<Rightarrow> real \<Rightarrow> real \<Rightarrow> string \<Rightarrow> real option \<Rightarrow> real option \<Rightarrow> string option \<Rightarrow>
   bool \<Rightarrow> pyflag \<Rightarrow> pyflag \<Rightarrow> string \<Rightarrow> exposure io" where
  "make_cutout_image env butler ra dec filt vmin vmax label show_fig saveplot savefits datasetType =
     io_bind (cutout_coadd_ra_dec env butler ra dec filt ''deepCoadd'')
     (\<lambda>cutout_image.
        io_bind (io_when (truthy savefits)
                   (let filename = filename_of savefits ''postage-stamp.fits''
                    in io_do (WriteFits filename) (writeFits env cutout_image filename)))
        (\<lambda>_. let radec = SpherePoint ra dec in
        io_bind (io_lift (getWcs cutout_image radec))
        (\<lambda>xy. io_bind (case (vmin, vmax) of
                          (Some lo, Some hi) \<Rightarrow> io_return (lo, hi)
                        | _ \<Rightarrow> io_lift (zscale_get_limits env
                                          (array (image_plane cutout_image))))
        (\<lambda>limits.
             let imshow = Imshow (array (image_plane cutout_image)) (fst limits) (snd limits);
                 scatter = Scatter (fst xy - real_of_int (getX0 cutout_image))
                                   (snd xy - real_of_int (getY0 cutout_image))
             in
        io_bind (io_do (Plt imshow) (plt env imshow))
        (\<lambda>_. io_bind (io_do (Plt Colorbar) (plt env Colorbar))
        (\<lambda>_. io_bind (io_do (Plt scatter) (plt env scatter))
        (\<lambda>_. io_bind (case label of
                         None \<Rightarrow> io_return ()
                       | Some l \<Rightarrow> io_do (Plt (Title l)) (plt env (Title l)))
        (\<lambda>_. io_bind (io_when (truthy saveplot)
                         (let filename = filename_of saveplot ''postage-stamp.png''
                          in io_do (Plt (Savefig filename)) (plt env (Savefig filename))))
        (\<lambda>_. io_bind (io_when show_fig (io_do (Plt Show) (plt env Show)))
        (\<lambda>_. io_return cutout_image))))))))))"

text \<open>
  \<^verbatim>\<open>
  def display_cutout_image(butler, ra, dec, vmin=None, vmax=None, label=None,
                           frame=None, display=None, backend='matplotlib',
                           show=True, saveplot=False, savefits=False,
                           old_matplotlib = False, datasetType='deepCoadd'):
      cutout_image = cutout_coadd_ra_dec(butler, ra, dec, filter='r',
                                         datasetType='deepCoadd')
      if savefits:
          if isinstance(savefits, str): filename = savefits
          else: filename = 'postage-stamp.fits'
          cutout_image.writeFits(filename)
      if display is None:
          display = afwDisplay.Display(frame=frame, backend=backend)
      radec = afwGeom.SpherePoint(ra, dec, afwGeom.degrees)
      xy = cutout_image.getWcs().skyToPixel(radec)
      display.mtv(cutout_image)
      display.scale("asinh", "zscale")
      display.dot('o', xy.getX(), xy.getY(), ctype='red')
      display.show_colorbar()
      return cutout_image
  \<close>
\<close>

definition display_cutout_image ::
  "env \<Rightarrow> butler \<Rightarrow> real \<Rightarrow> real \<Rightarrow> real option \<Rightarrow> real option \<Rightarrow> string option \<Rightarrow>
   int option \<Rightarrow> display option \<Rightarrow> string \<Rightarrow> bool \<Rightarrow> pyflag \<Rightarrow> pyflag \<Rightarrow> bool \<Rightarrow> string \<Rightarrow>
   exposure io" where
  "display_cutout_image env butler ra dec vmin vmax label frame display backend show_fig
     saveplot savefits old_matplotlib datasetType =
     io_bind (cutout_coadd_ra_dec env butler ra dec ''r'' ''deepCoadd'')
     (\<lambda>cutout_image.
        io_bind (io_when (truthy savefits)
                   (let filename = filename_of savefits ''postage-stamp.fits''
                    in io_do (WriteFits filename) (writeFits env cutout_image filename)))
        (\<lambda>_. io_bind (case display of
                         None \<Rightarrow>
                           io_bind (io_do (Disp (Display frame backend) Create)
                                      (afwDisplay env (Display frame backend) Create))
                             (\<lambda>_. io_return (Display frame backend))
                       | Some d \<Rightarrow> io_return d)
        (\<lambda>d. let radec = SpherePoint ra dec in
        io_bind (io_lift (getWcs cutout_image radec))
        (\<lambda>xy. let dot = Dot ''o'' (fst xy) (snd xy) ''red'' in
        io_bind (io_do (Disp d (Mtv cutout_image)) (afwDisplay env d (Mtv cutout_image)))
        (\<lambda>_. io_bind (io_do (Disp d (Scale ''asinh'' ''zscale''))
                         (afwDisplay env d (Scale ''asinh'' ''zscale'')))
        (\<lambda>_. io_bind (io_do (Disp d dot) (afwDisplay env d dot))
        (\<lambda>_. io_bind (io_do (Disp d ShowColorbar) (afwDisplay env d ShowColorbar))
        (\<lambda>_. io_return cutout_image))))))))"

subsection \<open>The loop over the catalogue\<close>

text \<open>
  \<^verbatim>\<open>
  filter = 'r'
  frame = 1
  show = False
  datasetType = 'deepCoadd'
  vmin, vmax = -0.75, +1.5
  for objectId, ra, dec in id_ra_dec:
      plt.figure(frame)
      plt.clf()
      basename = "Stamps/%s_%s_%s" % (datasetType, objectId, filter)
      saveplot = "%s.png" % basename
      savefits = "%s.fits" % basename
      make_cutout_image(butler, ra, dec, filter=filter, vmin=vmin, vmax=vmax,
                        datasetType=datasetType,
                        label="Object ID: %d" % objectId,
                        show=show, saveplot=saveplot, savefits=savefits)
  \<close>
  \<open>stamp\<close> is the body of the loop for one row of the table, \<open>stamps\<close> the loop.
\<close>

definition stamp :: "env \<Rightarrow> butler \<Rightarrow> int \<times> real \<times> real \<Rightarrow> unit io" where
  "stamp env butler row =
     (case row of (objectId, ra, dec) \<Rightarrow>
        let filt = ''r'';
            frame = 1;
            show_fig = False;
            datasetType = ''deepCoadd'';
            vmin = - 0.75;
            vmax = 1.5
        in
        io_bind (io_do (Plt (Figure frame)) (plt env (Figure frame)))
        (\<lambda>_. io_bind (io_do (Plt Clf) (plt env Clf))
        (\<lambda>_. let basename = ''Stamps/'' @ datasetType @ ''_'' @ str_int objectId @ ''_'' @ filt;
                 saveplot = basename @ ''.png'';
                 savefits = basename @ ''.fits''
             in
        io_bind (make_cutout_image env butler ra dec filt (Some vmin) (Some vmax)
                   (Some (''Object ID: '' @ str_int objectId))
                   show_fig (PyStr saveplot) (PyStr savefits) datasetType)
        (\<lambda>_. io_return ()))))"

fun stamps :: "env \<Rightarrow> butler \<Rightarrow> (int \<times> real \<times> real) list \<Rightarrow> unit io" where
  "stamps env butler [] = io_return ()"
| "stamps env butler (row # id_ra_dec) =
     io_bind (stamp env butler row) (\<lambda>_. stamps env butler id_ra_dec)"

subsection \<open>Example data\<close>

text \<open>
  Small concrete inputs on which the functions above are run: a 2 by 2 cutout in single
  precision, a 3 by 3 PSF image in double precision whose middle row sums to 1, a 61 by 61
  PSF image whose element at row \<open>i\<close> and column \<open>j\<close> is \<open>61 * i + j\<close>, and a 51 by 51
  cutout.
\<close>

text \<open>A sum that adds from left to right, starting from zero, in the type of the array.\<close>

definition seq_sum :: np_sum where
  "seq_sum d xs = foldl (np_add d) (Fin 0) xs"

definition example_cutout :: ndarray where
  "example_cutout = NDArray Float32 2 [[Fin 1, Fin 2], [Fin 3, Fin 4]]"

definition example_kernel :: ndarray where
  "example_kernel =
     NDArray Float64 3 [[Fin 0, Fin 0, Fin 0], [Fin 0.25, Fin 0.5, Fin 0.25], [Fin 0, Fin 0, Fin 0]]"

definition kernel61 :: ndarray where
  "kernel61 =
     NDArray Float64 61 (map (\<lambda>i. map (\<lambda>j. Fin (real (61 * i + j))) [0..<61]) [0..<61])"

definition cutout51 :: ndarray where
  "cutout51 = NDArray Float32 51 (replicate 51 (replicate 51 (Fin 0)))"

definition example_exposure :: exposure where
  "example_exposure =
     \<lparr>image_plane = Image (10, 20) example_cutout,
      mask_plane = Mask (10, 20) [[0, 0], [0, 32]],
      variance_plane = Image (10, 20) (NDArray Float32 2 [[Fin 1, Fin 1], [Fin 1, Fin 1]]),
      getWcs = (\<lambda>radec. Inr (11, 21))\<rparr>"

definition example_heap :: heap where
  "example_heap = \<lparr>next_addr = 1, objs = (\<lambda>a. None)(0 \<mapsto> example_exposure)\<rparr>"

definition example_notebook :: notebook where
  "example_notebook =
     \<lparr>nb_heap = example_heap, nb_cutout = 0, nb_kernel_image = Image (0, 0) example_kernel,
      nb_scaling = None, nb_offset_nx = None, nb_offset_ny = None,
      nb_cutout_minus_psf = None, nb_residual = None\<rparr>"

text \<open>The notebook that a run of the compositor cells leaves from the example notebook.\<close>

definition example_notebook_after :: notebook where
  "example_notebook_after =
     \<lparr>nb_heap =
        \<lparr>next_addr = 2,
         objs = (\<lambda>a. None)
           (0 \<mapsto> example_exposure,
            1 \<mapsto> example_exposure
                  \<lparr>image_plane :=
                     Image (0, 0) (NDArray Float32 2 [[Fin 1, Fin 2], [Fin 1.25, Fin 0.5]])\<rparr>)\<rparr>,
      nb_cutout = 0, nb_kernel_image = Image (0, 0) example_kernel,
      nb_scaling = Some (Fin 7), nb_offset_nx = Some 1, nb_offset_ny = Some 1,
      nb_cutout_minus_psf = Some (NDArray Float64 2 [[Fin 1, Fin 2], [Fin 1.25, Fin 0.5]]),
      nb_residual = Some 1\<rparr>"

text \<open>
  A tract whose transform sends every coordinate to the pixel (1000, 2000), a sky map that
  knows that tract for right ascensions below 60 degrees and raises otherwise, a butler
  that knows the dataset types \<^verbatim>\<open>deepCoadd_skyMap\<close> and \<^verbatim>\<open>deepCoadd_sub\<close> only,
  a butler that answers every dataset type, and libraries whose calls all return.
\<close>

definition example_tract :: tractInfo where
  "example_tract =
     \<lparr>getId = 4850,
      findPatch = (\<lambda>radec. Inr (PatchInfo (3, 5))),
      tractWcs = (\<lambda>radec. Inr (1000, 2000))\<rparr>"

definition example_skymap :: skyMap where
  "example_skymap =
     SkyMap (\<lambda>radec. case radec of SpherePoint ra dec \<Rightarrow>
               if ra < 60 then Inr example_tract else Inl (External ''LookupError''))"

definition example_butler :: butler where
  "example_butler =
     \<lparr>get_skyMap = (\<lambda>name. if name = ''deepCoadd_skyMap'' then Inr example_skymap
                           else Inl (External ''NoResults'')),
      get_sub = (\<lambda>name bbox coaddId. if name = ''deepCoadd_sub'' then Inr example_exposure
                           else Inl (External ''NoResults''))\<rparr>"

definition permissive_butler :: butler where
  "permissive_butler =
     \<lparr>get_skyMap = (\<lambda>name. Inr example_skymap),
      get_sub = (\<lambda>name bbox coaddId. Inr example_exposure)\<rparr>"

definition example_env :: env where
  "example_env =
     \<lparr>PointI = (\<lambda>xy. Inr (\<lfloor>fst xy\<rfloor>, \<lfloor>snd xy\<rfloor>)),
      writeFits = (\<lambda>e name. None),
      zscale_get_limits = (\<lambda>a. Inr (0, 1)),
      plt = (\<lambda>c. None),
      afwDisplay = (\<lambda>d c. None)\<rparr>"

section \<open>Rounding\<close>

lemma powi_mono: "a \<le> b \<Longrightarrow> (2::real) powi a \<le> 2 powi b"
  by (rule power_int_increasing) simp_all

lemma powi_less_imp: "(2::real) powi a \<le> x \<Longrightarrow> x < 2 powi b \<Longrightarrow> a < b"
  using powi_mono [of b a] by (cases "a < b") auto

lemma scan_up_at:
  "e0 \<le> e \<Longrightarrow> e \<le> e0 + int k \<Longrightarrow> 2 powi e \<le> x \<Longrightarrow> x < 2 powi (e + 1) \<Longrightarrow>
   scan_up x e0 k = e"
proof (induction k arbitrary: e0)
  case 0
  then show ?case by simp
next
  case (Suc k)
  show ?case
  proof (cases "x < 2 powi (e0 + 1)")
    case True
    then have "e < e0 + 1" using Suc.prems(3) powi_less_imp by blast
    then show ?thesis using True Suc.prems(1) by simp
  next
    case False
    then have "2 powi (e0 + 1) \<le> x" by simp
    then have "e0 + 1 < e + 1" using Suc.prems(4) powi_less_imp by blast
    then show ?thesis using False Suc by simp
  qed
qed

lemma scan_down_at:
  "e \<le> e0 \<Longrightarrow> e0 - int k \<le> e \<Longrightarrow> 2 powi e \<le> x \<Longrightarrow> x < 2 powi (e + 1) \<Longrightarrow>
   scan_down x e0 k = e"
proof (induction k arbitrary: e0)
  case 0
  then show ?case by simp
next
  case (Suc k)
  show ?case
  proof (cases "2 powi e0 \<le> x")
    case True
    then have "e0 < e + 1" using Suc.prems(4) powi_less_imp by blast
    then show ?thesis using True Suc.prems(1) by simp
  next
    case False
    then have "x < 2 powi e0" by simp
    then have "e < e0" using Suc.prems(3) powi_less_imp by blast
    then show ?thesis using False Suc by simp
  qed
qed

text \<open>The exponent is the one between whose powers of two the value lies.\<close>

lemma exponent_at:
  assumes "2 powi e \<le> a" "a < 2 powi (e + 1)" "emin d \<le> e" "e \<le> emax d"
  shows "exponent d a = e"
proof (cases "1 \<le> a")
  case True
  have "(2::real) powi 0 \<le> a" using True by simp
  then have "0 < e + 1" using assms(2) powi_less_imp by blast
  then show ?thesis
    using True assms by (simp add: exponent_def scan_up_at)
next
  case False
  have "a < (2::real) powi 0" using False by simp
  then have "e < 0" using assms(1) powi_less_imp by blast
  then show ?thesis
    using False assms by (simp add: exponent_def scan_down_at)
qed

lemma fround_mag_at:
  assumes "2 powi e \<le> a" "a < 2 powi (e + 1)" "emin d \<le> e" "e \<le> emax d"
  shows "fround_mag d s a =
     (let q = 2 powi (e - precision d + 1);
          n = round_half_even (a / q);
          y = of_int n * q
      in if 2 powi (emax d + 1) \<le> y then signed_inf s
         else if n = 0 then signed_zero s
         else Fin (if s then - y else y))"
proof -
  have "0 < a" using assms(1) by (smt (verit) zero_less_power_int)
  then show ?thesis
    by (simp add: fround_mag_def exponent_at [OF assms])
qed

text \<open>
  The rounding at the exponents that the examples need, as rewrite rules: each applies
  where the value lies between its two powers of two.
\<close>

lemmas fround_mag_eval =
  fround_mag_at [where e = "- 7"] fround_mag_at [where e = "- 4"]
  fround_mag_at [where e = "- 3"] fround_mag_at [where e = "- 2"]
  fround_mag_at [where e = "- 1"] fround_mag_at [where e = 0]
  fround_mag_at [where e = 1] fround_mag_at [where e = 2]
  fround_mag_at [where e = 9] fround_mag_at [where e = 16]

lemma fround_mag_zero: "fround_mag d s 0 = signed_zero s"
  by (simp add: fround_mag_def)

lemmas float_eval =
  fround_def fround_mag_zero fround_mag_eval emin_def round_half_even_def signed_zero_def signed_inf_def
  np_sub_def np_mul_def np_div_def Let_def

lemma fround_zero: "fround d 0 = Fin 0"
  by (simp add: fround_def fround_mag_zero signed_zero_def)

text \<open>
  Some values: the double nearest to 0.01 and to 7/3, a double that single precision
  rounds to 1, a sum that is 0.0 though the exact sum is not, and the quotient of 1000.0
  and the double 0.01.
\<close>

lemma float_examples:
  "fround Float64 0.01 = Fin (5764607523034235 / 2 ^ 59)"
  "np_div Float64 (Fin 7) (Fin 3) = Fin (5254199565265579 / 2 ^ 51)"
  "np_cast Float32 (Fin (1 - 1 / 2 ^ 30)) = Fin 1"
  "seq_sum Float64 [Fin 1, Fin (1 / 2 ^ 60), Fin (- 1)] = Fin 0"
  "np_div Float64 (Fin 1000) (Fin (5764607523034235 / 2 ^ 59)) = Fin 100000"
  by (simp_all add: float_eval seq_sum_def)

lemma is_zero_np_cast: "is_zero z \<Longrightarrow> is_zero (np_cast d z)"
  by (cases z) (simp_all add: fround_zero)

lemma np_div_by_zero: "is_zero z \<Longrightarrow> np_div d a z \<in> {PInf, NInf, NaN}"
  by (cases a; cases z) (auto simp: np_div_def signed_inf_def Let_def)

section \<open>Slices and crops\<close>

lemma slice_bound_low: "d \<le> n \<Longrightarrow> slice_bound n (int d div 2) = d div 2"
  by (auto simp: slice_bound_def)

lemma slice_bound_high:
  "0 < d \<Longrightarrow> d \<le> n \<Longrightarrow> slice_bound n ((- int d) div 2) = n - (d + 1) div 2"
  by (auto simp: slice_bound_def)

text \<open>
  For a positive offset \<open>d\<close> the slice \<^verbatim>\<open>xs[d//2:-d//2]\<close> drops \<open>d div 2\<close> elements
  at the front and keeps the next \<open>length xs - d\<close>.
\<close>

lemma py_slice_crop:
  assumes "0 < d" "d \<le> length xs"
  shows "py_slice (int d div 2) ((- int d) div 2) xs = take (length xs - d) (drop (d div 2) xs)"
proof -
  have "length xs - (d + 1) div 2 - d div 2 = length xs - d"
    using assms by linarith
  then show ?thesis
    using assms by (simp add: py_slice_def slice_bound_low slice_bound_high)
qed

lemma map_py_slice_crop:
  assumes "list_all (\<lambda>r. length r = q) rs" "0 < d" "d \<le> q"
  shows "map (py_slice (int d div 2) ((- int d) div 2)) rs =
         map (\<lambda>r. take (q - d) (drop (d div 2) r)) rs"
  using assms by (induction rs) (simp_all add: py_slice_crop)

lemma kernel_crop_rows:
  assumes "well_shaped k" "np_shape k = (p, q)" "np_shape c = (m, n)" "m < p" "n < q"
  shows "rows (kernel_crop k (offset_nx c k) (offset_ny c k)) =
           map (\<lambda>r. take n (drop ((q - n) div 2) r)) (take m (drop ((p - m) div 2) (rows k)))"
proof -
  have ox: "offset_nx c k = int (p - m)" and oy: "offset_ny c k = int (q - n)"
    using assms by (simp_all add: offset_nx_def offset_ny_def)
  have len: "length (rows k) = p" and nc: "ncols k = q"
    using assms by (simp_all add: np_shape_def)
  have rs: "py_slice (int (p - m) div 2) ((- int (p - m)) div 2) (rows k) =
            take m (drop ((p - m) div 2) (rows k))"
    using assms len py_slice_crop [of "p - m" "rows k"] by simp
  have all: "list_all (\<lambda>r. length r = q) (take m (drop ((p - m) div 2) (rows k)))"
    using assms(1) nc unfolding well_shaped_def list_all_iff
    by (auto dest!: in_set_takeD in_set_dropD)
  show ?thesis
    unfolding kernel_crop_def np_slice2_def ox oy
    using map_py_slice_crop [OF all, of "q - n"] assms rs by simp
qed

lemma kernel_crop_ncols:
  assumes "np_shape k = (p, q)" "np_shape c = (m, n)" "n < q"
  shows "ncols (kernel_crop k (offset_nx c k) (offset_ny c k)) = n"
proof -
  have oy: "offset_ny c k = int (q - n)"
    using assms by (simp add: offset_ny_def)
  have nc: "ncols k = q"
    using assms by (simp add: np_shape_def)
  have lo: "slice_bound q (int (q - n) div 2) = (q - n) div 2"
    by (rule slice_bound_low) simp
  have hi: "slice_bound q ((- int (q - n)) div 2) = q - (q - n + 1) div 2"
    by (rule slice_bound_high) (use assms in simp_all)
  have "q - (q - n + 1) div 2 - (q - n) div 2 = n"
    using assms by linarith
  then show ?thesis
    unfolding kernel_crop_def np_slice2_def oy nc lo hi by simp
qed

lemma well_shaped_kernel61: "well_shaped kernel61"
  by (simp add: kernel61_def well_shaped_def list_all_iff)

lemma example_crop:
  "kernel_crop example_kernel 1 1 = NDArray Float64 2 [[Fin 0, Fin 0], [Fin 0.25, Fin 0.5]]"
  by (simp add: example_kernel_def kernel_crop_def np_slice2_def py_slice_def slice_bound_def)

lemma example_facts:
  "well_shaped example_cutout"
  "well_shaped (kernel_crop example_kernel 1 1)"
  "np_shape (kernel_crop example_kernel 1 1) = np_shape example_cutout"
  "objs example_heap 0 = Some example_exposure"
  "array (image_plane example_exposure) = example_cutout"
  "0 < next_addr example_heap"
  by (simp_all add: example_crop example_cutout_def example_heap_def example_exposure_def
        well_shaped_def np_shape_def)

text \<open>
  Claim C1, as the code has it. The crop
  \<^verbatim>\<open>kernel_image.array[offset_nx//2:-offset_nx//2, offset_ny//2:-offset_ny//2]\<close>
  of a PSF array of shape \<open>p\<close> by \<open>q\<close> has the cutout's shape \<open>m\<close> by \<open>n\<close> whenever the
  PSF array is larger than the cutout in both axes (\<open>m < p\<close> and \<open>n < q\<close>), which is what
  the notebook assumes. It removes \<open>(p - m) div 2\<close> rows at the low side and
  \<open>(p - m + 1) div 2\<close> rows at the high side, the floor and the ceiling of half the
  difference, and likewise for the columns: for an odd difference the high side loses one
  more than the low side.
\<close>

theorem kernel_crop_shape:
  assumes "well_shaped k" "np_shape k = (p, q)" "np_shape c = (m, n)" "m < p" "n < q"
  shows "np_shape (kernel_crop k (offset_nx c k) (offset_ny c k)) = (m, n) \<and>
         well_shaped (kernel_crop k (offset_nx c k) (offset_ny c k)) \<and>
         rows (kernel_crop k (offset_nx c k) (offset_ny c k)) =
           map (\<lambda>r. take n (drop ((q - n) div 2) r)) (take m (drop ((p - m) div 2) (rows k))) \<and>
         (p - m) div 2 + m + (p - m + 1) div 2 = p \<and>
         (q - n) div 2 + n + (q - n + 1) div 2 = q"
proof -
  let ?crop = "kernel_crop k (offset_nx c k) (offset_ny c k)"
  have len: "length (rows k) = p" and nc: "ncols k = q"
    using assms by (simp_all add: np_shape_def)
  have r: "rows ?crop =
             map (\<lambda>r. take n (drop ((q - n) div 2) r)) (take m (drop ((p - m) div 2) (rows k)))"
    by (rule kernel_crop_rows [OF assms])
  have c: "ncols ?crop = n"
    by (rule kernel_crop_ncols [OF assms(2,3,5)])
  have lr: "length (rows ?crop) = m"
    unfolding r using assms len by simp
  have ws: "well_shaped ?crop"
    unfolding well_shaped_def c r list_all_iff
    using assms(1,5) nc unfolding well_shaped_def list_all_iff
    by (auto dest!: in_set_takeD in_set_dropD)
  have a1: "(p - m) div 2 + m + (p - m + 1) div 2 = p" using assms by linarith
  have a2: "(q - n) div 2 + n + (q - n + 1) div 2 = q" using assms by linarith
  show ?thesis
    using r c lr ws a1 a2 by (simp add: np_shape_def)
qed

text \<open>
  The scenario of the claim: a 61 by 61 PSF image and a 51 by 51 cutout. Five rows and
  five columns go at each side, and rows and columns 5 to 55 stay. Then an odd
  difference: the 3 by 3 PSF image and the 2 by 2 cutout, where nothing goes at the low
  side and one row and one column go at the high side.
\<close>

theorem kernel_crop_shape_61_51:
  "np_shape (kernel_crop kernel61 (offset_nx cutout51 kernel61) (offset_ny cutout51 kernel61))
     = (51, 51) \<and>
   rows (kernel_crop kernel61 (offset_nx cutout51 kernel61) (offset_ny cutout51 kernel61)) =
     map (\<lambda>i. map (\<lambda>j. Fin (real (61 * i + j))) [5..<56]) [5..<56] \<and>
   (61 - 51) div 2 = (5::nat) \<and> (61 - 51 + 1) div 2 = (5::nat) \<and>
   rows (kernel_crop example_kernel (offset_nx example_cutout example_kernel)
           (offset_ny example_cutout example_kernel)) =
     [[Fin 0, Fin 0], [Fin 0.25, Fin 0.5]] \<and>
   (3 - 2) div 2 = (0::nat) \<and> (3 - 2 + 1) div 2 = (1::nat)"
proof -
  have a: "np_shape kernel61 = (61, 61)" by (simp add: kernel61_def np_shape_def)
  have b: "np_shape cutout51 = (51, 51)" by (simp add: cutout51_def np_shape_def)
  have c: "rows kernel61 = map (\<lambda>i. map (\<lambda>j. Fin (real (61 * i + j))) [0..<61]) [0..<61]"
    by (simp add: kernel61_def)
  have big: "np_shape (kernel_crop kernel61 (offset_nx cutout51 kernel61) (offset_ny cutout51 kernel61))
       = (51, 51) \<and>
     rows (kernel_crop kernel61 (offset_nx cutout51 kernel61) (offset_ny cutout51 kernel61)) =
       map (\<lambda>i. map (\<lambda>j. Fin (real (61 * i + j))) [5..<56]) [5..<56]"
    using kernel_crop_shape [OF well_shaped_kernel61 a b] unfolding c
    by (simp add: take_map drop_map take_upt drop_upt del: upt.simps)
  have d: "well_shaped example_kernel" "np_shape example_kernel = (3, 3)"
    "np_shape example_cutout = (2, 2)"
    by (simp_all add: example_kernel_def example_cutout_def well_shaped_def np_shape_def)
  have small: "rows (kernel_crop example_kernel (offset_nx example_cutout example_kernel)
           (offset_ny example_cutout example_kernel)) = [[Fin 0, Fin 0], [Fin 0.25, Fin 0.5]]"
    using kernel_crop_shape [OF d] by (simp add: example_kernel_def)
  show ?thesis
    using big small by simp
qed

text \<open>
  The claim as stated, for every PSF array at least as large as the cutout, fails where
  the two have the same size: the offset is 0, the slice is \<^verbatim>\<open>[0:0]\<close>, the crop
  is empty, and the subtraction of the empty crop from the 2 by 2 cutout is a ValueError.
\<close>

theorem kernel_crop_equal_size_is_empty:
  "np_shape (NDArray Float32 2 [[Fin 1, Fin 2], [Fin 3, Fin 4]]) = (2, 2) \<and>
   np_shape (NDArray Float64 2 [[Fin 5, Fin 6], [Fin 7, Fin 8]]) = (2, 2) \<and>
   np_shape (kernel_crop (NDArray Float64 2 [[Fin 5, Fin 6], [Fin 7, Fin 8]])
      (offset_nx (NDArray Float32 2 [[Fin 1, Fin 2], [Fin 3, Fin 4]])
                 (NDArray Float64 2 [[Fin 5, Fin 6], [Fin 7, Fin 8]]))
      (offset_ny (NDArray Float32 2 [[Fin 1, Fin 2], [Fin 3, Fin 4]])
                 (NDArray Float64 2 [[Fin 5, Fin 6], [Fin 7, Fin 8]])))
    = (0, 0) \<and>
   cutout_minus_psf (NDArray Float32 2 [[Fin 1, Fin 2], [Fin 3, Fin 4]])
      (NDArray Float64 2 [[Fin 5, Fin 6], [Fin 7, Fin 8]]) (Fin 1) 0 0 = Inl ValueError"
  by (simp add: np_shape_def kernel_crop_def np_slice2_def offset_nx_def offset_ny_def
        py_slice_def slice_bound_def cutout_minus_psf_def np_subtract_def np_scalar_mul_def
        broadcast_dim_def)

section \<open>The scale factor\<close>

lemma cutout_slice_row:
  assumes "np_shape c = (m, n)" "0 < m"
  shows "cutout_slice c = Inr (rows c ! (m div 2))"
proof -
  have "nat (int m div 2) = m div 2" by linarith
  then show ?thesis
    using assms by (auto simp: cutout_slice_def np_row_def np_shape_def Let_def)
qed

lemma kernel_slice_row:
  assumes "np_shape k = (p, q)" "0 < p"
  shows "kernel_slice k = Inr (rows k ! (p div 2))"
proof -
  have "nat (int p div 2) = p div 2" by linarith
  then show ?thesis
    using assms by (auto simp: kernel_slice_def np_row_def np_shape_def Let_def)
qed

lemma scaling_eq:
  assumes "np_shape c = (m, n)" "np_shape k = (p, q)" "0 < m" "0 < p"
  shows "scaling np_sum c k =
           Inr (np_div (promote (dtype c) (dtype k))
                  (np_cast (promote (dtype c) (dtype k)) (np_sum (dtype c) (rows c ! (m div 2))))
                  (np_cast (promote (dtype c) (dtype k)) (np_sum (dtype k) (rows k ! (p div 2)))))"
  by (simp add: scaling_def Let_def cutout_slice_row [OF assms(1,3)]
      kernel_slice_row [OF assms(2,4)])

lemma stretch_same: "length xs = n \<Longrightarrow> stretch n xs = xs"
  by (cases xs rule: list.exhaust; cases "tl xs") (auto simp: stretch_def split: list.splits)

lemma map2_sub_scaled:
  "map2 (\<lambda>u v. np_sub d (np_cast d u) (np_cast d v)) xs (map f ys) =
   map2 (\<lambda>a b. np_sub d (np_cast d a) (np_cast d (f b))) xs ys"
  by (induction xs ys rule: list_induct2') simp_all

lemma scalar_result_type_double: "scalar_result_type ds s Float64 = Float64"
  by (simp add: scalar_result_type_def)

lemma promote_double: "promote d Float64 = Float64"
  by (simp add: promote_def)

lemma np_scalar_mul1_double:
  "np_scalar_mul1 ds s Float64 xs =
     map (\<lambda>x. np_mul Float64 (np_cast Float64 s) (np_cast Float64 x)) xs"
  by (simp add: np_scalar_mul1_def scalar_result_type_double)



lemma scenario_values:
  "fround Float32 1000 = Fin 1000"
  "fround Float64 1000 = Fin 1000"
  "fround Float64 (1 / 100) = Fin (5764607523034235 / 576460752303423488)"
  "fround Float64 (5764607523034235 / 576460752303423488) =
     Fin (5764607523034235 / 576460752303423488)"
  "fround Float64 100000 = Fin 100000"
  "np_div Float64 (Fin 1000) (Fin (5764607523034235 / 576460752303423488)) = Fin 100000"
  "np_mul Float64 (Fin 100000) (Fin (5764607523034235 / 576460752303423488)) = Fin 1000"
  by (simp_all add: float_eval)

lemma example_sums:
  "seq_sum Float32 [Fin 1000] = Fin 1000"
  "seq_sum Float64 [Fin 0, Fin (5764607523034235 / 576460752303423488), Fin 0] =
     Fin (5764607523034235 / 576460752303423488)"
  "seq_sum Float64 [Fin 1, Fin (1 / 1152921504606846976), Fin (- 1)] = Fin 0"
  by (simp_all add: seq_sum_def float_eval)



text \<open>
  Claim C5. Nothing stands between the two sums and the division: whenever both arrays
  have a row to slice, \<^verbatim>\<open>scaling\<close> is the quotient, also when \<^verbatim>\<open>np.sum\<close> of the PSF
  slice is zero (\<^verbatim>\<open>0.0\<close> or \<^verbatim>\<open>-0.0\<close>). The division by zero is carried out, no error
  is raised, and the scale is then an infinity or NaN.
\<close>

theorem scaling_zero_divisor:
  assumes "np_shape c = (m, n)" "np_shape k = (p, q)" "0 < m" "0 < p"
    "is_zero (np_sum (dtype k) (rows k ! (p div 2)))"
  shows "scaling np_sum c k =
           Inr (np_div (promote (dtype c) (dtype k))
                  (np_cast (promote (dtype c) (dtype k)) (np_sum (dtype c) (rows c ! (m div 2))))
                  (np_cast (promote (dtype c) (dtype k)) (np_sum (dtype k) (rows k ! (p div 2))))) \<and>
         np_div (promote (dtype c) (dtype k))
           (np_cast (promote (dtype c) (dtype k)) (np_sum (dtype c) (rows c ! (m div 2))))
           (np_cast (promote (dtype c) (dtype k)) (np_sum (dtype k) (rows k ! (p div 2))))
           \<in> {PInf, NInf, NaN}"
  using scaling_eq [OF assms(1-4)] np_div_by_zero [OF is_zero_np_cast [OF assms(5)]]
  by simp

text \<open>
  A PSF image whose middle row is 1, \<open>2 powi (- 60)\<close>, -1: added from left to right in
  double precision the sum is 0.0, and the scale is infinite.
\<close>

theorem scaling_zero_divisor_example:
  "seq_sum Float64 [Fin 1, Fin (1 / 2 ^ 60), Fin (- 1)] = Fin 0 \<and>
   scaling seq_sum (NDArray Float32 1 [[Fin 1000]])
           (NDArray Float64 3 [[Fin 1, Fin 2, Fin 3],
                               [Fin 1, Fin (1 / 2 ^ 60), Fin (- 1)],
                               [Fin 3, Fin 4, Fin 5]])
     = Inr PInf"
  using scaling_zero_divisor [of "NDArray Float32 1 [[Fin 1000]]" 1 1
      "NDArray Float64 3 [[Fin 1, Fin 2, Fin 3],
                          [Fin 1, Fin (1 / 2 ^ 60), Fin (- 1)],
                          [Fin 3, Fin 4, Fin 5]]" 3 3 seq_sum]
  by (simp add: np_shape_def promote_def example_sums scenario_values fround_zero
      np_div_def signed_inf_def)

section \<open>The residual\<close>

lemma rows_sub_scaled:
  assumes "list_all (\<lambda>r. length r = n) xss" "list_all (\<lambda>r. length r = n) yss"
  shows "map2 (\<lambda>x y. map2 (\<lambda>u v. np_sub d (np_cast d u) (np_cast d v))
                         (stretch n x) (stretch n y)) xss (map (map f) yss) =
         map2 (map2 (\<lambda>a b. np_sub d (np_cast d a) (np_cast d (f b)))) xss yss"
  using assms
  by (induction xss yss rule: list_induct2') (simp_all add: stretch_same map2_sub_scaled)

lemma dtype_kernel_crop: "dtype (kernel_crop k ox oy) = dtype k"
  by (simp add: kernel_crop_def np_slice2_def)

text \<open>
  The difference for a double-precision PSF image: the scale and the PSF's elements are
  multiplied in double precision, the cutout's elements are converted to double
  precision, and the difference is taken in double precision.
\<close>

lemma cutout_minus_psf_eq:
  assumes "well_shaped c" "well_shaped (kernel_crop k ox oy)"
    "np_shape (kernel_crop k ox oy) = np_shape c" "dtype k = Float64"
  shows "cutout_minus_psf c k s ox oy =
           Inr (NDArray Float64 (ncols c)
                  (map2 (map2 (\<lambda>a b. np_sub Float64 (np_cast Float64 a)
                                  (np_cast Float64
                                     (np_mul Float64 (np_cast Float64 s) (np_cast Float64 b)))))
                     (rows c) (rows (kernel_crop k ox oy))))"
proof -
  let ?crop = "kernel_crop k ox oy"
  have l: "length (rows ?crop) = length (rows c)" and n: "ncols ?crop = ncols c"
    using assms(3) by (simp_all add: np_shape_def)
  have a: "list_all (\<lambda>r. length r = ncols c) (rows c)"
    using assms(1) by (simp add: well_shaped_def)
  have b: "list_all (\<lambda>r. length r = ncols c) (rows ?crop)"
    using assms(2) n by (simp add: well_shaped_def)
  have d: "dtype ?crop = Float64"
    using assms(4) by (simp add: dtype_kernel_crop)
  have m: "np_scalar_mul1 ds s Float64 =
             map (\<lambda>x. np_mul Float64 (np_cast Float64 s) (np_cast Float64 x))"
    for ds by (rule ext) (rule np_scalar_mul1_double)
  show ?thesis
    unfolding cutout_minus_psf_def np_subtract_def np_scalar_mul_def d m
      scalar_result_type_double
    by (simp add: l n broadcast_dim_def stretch_same promote_double
        rows_sub_scaled [OF a b])
qed

lemma residual_eq:
  assumes "objs h cutout = Some e"
  shows "residual h cutout d =
           Inr (next_addr h,
                h\<lparr>next_addr := Suc (next_addr h),
                  objs := (objs h)(next_addr h \<mapsto>
                             e\<lparr>image_plane := Image (0, 0) (astype Float32 d)\<rparr>)\<rparr>)"
  using assms by (simp add: residual_def clone_def ImageF_def astype_def setImage_def)

text \<open>
  Claim C6. For the double-precision PSF image of the notebook, cropped to the cutout's
  shape (both arrays well shaped), \<^verbatim>\<open>cutout_minus_psf\<close> is the double-precision array
  \<open>d\<close> of the cutout's shape whose element at each position is the cutout's element minus
  the scale times the cropped PSF's element, the product rounded to double precision and
  then the difference rounded to double precision. The array stored as the image of
  \<^verbatim>\<open>residual\<close> has the cutout's shape and the single-precision element type, and its
  element at each position is the element of \<open>d\<close> rounded to single precision.
\<close>

theorem cutout_minus_psf_elementwise:
  assumes "well_shaped c" "well_shaped (kernel_crop k ox oy)"
    "np_shape (kernel_crop k ox oy) = np_shape c" "dtype k = Float64"
    "objs h cutout = Some e" "array (image_plane e) = c"
  shows "let d = NDArray Float64 (ncols c)
                   (map2 (map2 (\<lambda>a b. np_sub Float64 (np_cast Float64 a)
                                   (np_cast Float64
                                      (np_mul Float64 (np_cast Float64 s) (np_cast Float64 b)))))
                      (rows c) (rows (kernel_crop k ox oy)));
             stored = astype Float32 d
         in cutout_minus_psf (array (image_plane e)) k s ox oy = Inr d \<and>
            np_shape d = np_shape c \<and>
            residual h cutout d =
              Inr (next_addr h,
                   h\<lparr>next_addr := Suc (next_addr h),
                     objs := (objs h)(next_addr h \<mapsto> e\<lparr>image_plane := Image (0, 0) stored\<rparr>)\<rparr>) \<and>
            rows stored = map (map (np_cast Float32)) (rows d) \<and>
            np_shape stored = np_shape c \<and>
            dtype stored = Float32"
proof -
  let ?d = "NDArray Float64 (ncols c)
              (map2 (map2 (\<lambda>a b. np_sub Float64 (np_cast Float64 a)
                              (np_cast Float64
                                 (np_mul Float64 (np_cast Float64 s) (np_cast Float64 b)))))
                 (rows c) (rows (kernel_crop k ox oy)))"
  have l: "length (rows (kernel_crop k ox oy)) = length (rows c)"
    using assms(3) by (simp add: np_shape_def)
  have 1: "cutout_minus_psf c k s ox oy = Inr ?d"
    by (rule cutout_minus_psf_eq [OF assms(1-4)])
  have 2: "np_shape ?d = np_shape c"
    by (simp add: np_shape_def l)
  have 3: "np_shape (astype Float32 ?d) = np_shape c"
    by (simp add: np_shape_def astype_def l)
  have 4: "rows (astype Float32 ?d) = map (map (np_cast Float32)) (rows ?d)"
    "dtype (astype Float32 ?d) = Float32"
    by (simp_all add: astype_def)
  show ?thesis
    unfolding Let_def assms(6)
    using 1 2 3 4 residual_eq [OF assms(5), of ?d] by simp
qed

text \<open>
  The 2 by 2 single-precision cutout, the 3 by 3 double-precision PSF image cropped with
  offsets 1 and 1, and the scale one third (the double nearest to it). The products with
  the crop's second row, 0.25 and 0.5, are exact; the differences \<open>3 - 1/12\<close> and
  \<open>4 - 1/6\<close> are rounded to 53 bits, and again to 24 bits when the array is stored in
  a new exposure at address 1.
\<close>

theorem cutout_minus_psf_elementwise_example:
  "cutout_minus_psf example_cutout example_kernel (Fin (6004799503160661 / 2 ^ 54)) 1 1 =
     Inr (NDArray Float64 2
            [[Fin 1, Fin 2],
             [Fin (6567749456581973 / 2 ^ 51), Fin (8631899285793451 / 2 ^ 51)]]) \<and>
   residual example_heap 0
       (NDArray Float64 2
            [[Fin 1, Fin 2],
             [Fin (6567749456581973 / 2 ^ 51), Fin (8631899285793451 / 2 ^ 51)]]) =
     Inr (1, example_heap\<lparr>next_addr := 2,
               objs := (objs example_heap)(1 \<mapsto> example_exposure
                  \<lparr>image_plane :=
                     Image (0, 0) (NDArray Float32 2
                        [[Fin 1, Fin 2],
                         [Fin (12233387 / 2 ^ 22), Fin (16078165 / 2 ^ 22)]])\<rparr>)\<rparr>)"
proof -
  have n: "next_addr example_heap = 1" "Suc 1 = 2"
    by (simp_all add: example_heap_def)
  have r: "rows example_cutout = [[Fin 1, Fin 2], [Fin 3, Fin 4]]" "ncols example_cutout = 2"
    "dtype example_kernel = Float64"
    by (simp_all add: example_cutout_def example_kernel_def)
  show ?thesis
    using cutout_minus_psf_elementwise [OF example_facts(1-3) r(3) example_facts(4,5),
        of "Fin (6004799503160661 / 2 ^ 54)"]
    unfolding Let_def example_facts(5) n
    by (simp add: example_crop r astype_def float_eval)
qed

text \<open>
  Claim C7. \<^verbatim>\<open>residual = cutout.clone()\<close> followed by \<^verbatim>\<open>residual.setImage(...)\<close>
  leaves the exposure at the address of \<^verbatim>\<open>cutout\<close> as it was: image, mask, variance
  and coordinate transform. The residual is another object; its image plane is the new
  image, and its mask plane, variance plane and coordinate transform are the cutout's. No
  other object of the store changes.
\<close>

theorem residual_leaves_cutout:
  assumes "objs h cutout = Some e" "cutout < next_addr h"
  shows "let r = next_addr h;
             e' = e\<lparr>image_plane := Image (0, 0) (astype Float32 d)\<rparr>;
             h' = h\<lparr>next_addr := Suc r, objs := (objs h)(r \<mapsto> e')\<rparr>
         in residual h cutout d = Inr (r, h') \<and>
            r \<noteq> cutout \<and>
            objs h' cutout = Some e \<and>
            objs h' r = Some e' \<and>
            mask_plane e' = mask_plane e \<and>
            variance_plane e' = variance_plane e \<and>
            getWcs e' = getWcs e \<and>
            (\<forall>a. a \<noteq> r \<longrightarrow> objs h' a = objs h a)"
  using assms residual_eq [OF assms(1), of d] by (auto simp: Let_def)

text \<open>The store with the example exposure at address 0: the residual goes to address 1.\<close>

theorem residual_leaves_cutout_example:
  "residual example_heap 0 example_kernel =
     Inr (1, example_heap\<lparr>next_addr := 2,
               objs := (objs example_heap)(1 \<mapsto> example_exposure
                  \<lparr>image_plane := Image (0, 0) (astype Float32 example_kernel)\<rparr>)\<rparr>) \<and>
   objs (example_heap\<lparr>next_addr := 2,
               objs := (objs example_heap)(1 \<mapsto> example_exposure
                  \<lparr>image_plane := Image (0, 0) (astype Float32 example_kernel)\<rparr>)\<rparr>) 0
     = Some example_exposure"
proof -
  have n: "next_addr example_heap = 1" "Suc 1 = 2"
    by (simp_all add: example_heap_def)
  show ?thesis
    using residual_leaves_cutout [OF example_facts(4,6), of example_kernel]
    unfolding Let_def n by simp
qed

section \<open>Sequencing\<close>

lemma io_bind_Inl [simp]: "io_bind (Inl e, l) f = (Inl e, l)"
  by (simp add: io_bind_def)

lemma io_bind_Inr [simp]: "io_bind (Inr x, l) f = (fst (f x), l @ snd (f x))"
  by (simp add: io_bind_def split: prod.splits)

lemma io_bind_return [simp]: "io_bind (io_return x) f = f x"
  by (simp add: io_return_def)

lemma io_bind_fst_Inr:
  "fst (io_bind m f) = Inr y \<Longrightarrow> \<exists>x. fst m = Inr x \<and> fst (f x) = Inr y"
  by (cases m; cases "fst m") auto

lemma io_bind_unit_fst_Inr:
  "fst (io_bind m (\<lambda>_. k)) = Inr y \<Longrightarrow> fst k = Inr y"
  by (cases m; cases "fst m") auto

section \<open>Running the compositor twice\<close>

text \<open>
  What a run of the three cells leaves as the residual, and the calls it makes, are a
  function of the cutout's image array and of the PSF image's array alone: the run is the
  scaling cell's statements on the two arrays, the subtraction and the conversion to
  single precision.
\<close>

lemma run_compositor_array:
  "(residual_array (fst (run_compositor env np_sum nb)), snd (run_compositor env np_sum nb)) =
     io_bind (io_do (Plt (Figure 3)) (plt env (Figure 3)))
       (\<lambda>_. io_bind (io_lift (cutout_image_array nb))
       (\<lambda>ca. io_bind (scaling_cell_body env np_sum ca (array (nb_kernel_image nb)))
       (\<lambda>v. case v of (s, ox, oy) \<Rightarrow>
          io_bind (io_lift (cutout_minus_psf ca (array (nb_kernel_image nb)) s ox oy))
       (\<lambda>d. io_return (Some (astype Float32 d))))))"
proof -
  obtain r0 l0 where f: "io_do (Plt (Figure 3)) (plt env (Figure 3)) = (r0, l0)"
    by fastforce
  show ?thesis
  proof (cases r0)
    case (Inl e)
    then show ?thesis
      by (simp add: run_compositor_def cell_scaling_def f residual_array_def)
  next
    case u: (Inr u)
    show ?thesis
    proof (cases "objs (nb_heap nb) (nb_cutout nb)")
      case None
      then show ?thesis
        by (simp add: run_compositor_def cell_scaling_def f u residual_array_def
            cutout_image_array_def io_lift_def)
    next
      case (Some e0)
      obtain r1 l1 where b: "scaling_cell_body env np_sum (array (image_plane e0))
                               (array (nb_kernel_image nb)) = (r1, l1)"
        by fastforce
      show ?thesis
      proof (cases r1)
        case (Inl e)
        then show ?thesis
          by (simp add: run_compositor_def cell_scaling_def f u b Some residual_array_def
              cutout_image_array_def io_lift_def)
      next
        case (Inr v)
        obtain s ox oy where v: "v = (s, ox, oy)"
          by (cases v) auto
        show ?thesis
          by (cases "cutout_minus_psf (array (image_plane e0)) (array (nb_kernel_image nb))
                       s ox oy")
            (simp_all add: run_compositor_def cell_scaling_def f u b Some Inr v
              residual_array_def cutout_image_array_def io_lift_def io_return_def
              cell_subtract_def cell_residual_def lookup_def residual_eq)
      qed
    qed
  qed
qed

lemma run_compositor_keeps_inputs:
  assumes "fst (run_compositor env np_sum nb) = Inr nb'"
    "nb_cutout nb < next_addr (nb_heap nb)"
  shows "cutout_image_array nb' = cutout_image_array nb \<and>
         nb_kernel_image nb' = nb_kernel_image nb"
proof -
  obtain r0 l0 where f: "io_do (Plt (Figure 3)) (plt env (Figure 3)) = (r0, l0)"
    by fastforce
  show ?thesis
  proof (cases r0)
    case (Inl e)
    then show ?thesis
      using assms by (simp add: run_compositor_def cell_scaling_def f)
  next
    case u: (Inr u)
    show ?thesis
    proof (cases "objs (nb_heap nb) (nb_cutout nb)")
      case None
      then show ?thesis
        using assms
        by (simp add: run_compositor_def cell_scaling_def f u cutout_image_array_def
            io_lift_def)
    next
      case (Some e0)
      obtain r1 l1 where b: "scaling_cell_body env np_sum (array (image_plane e0))
                               (array (nb_kernel_image nb)) = (r1, l1)"
        by fastforce
      show ?thesis
      proof (cases r1)
        case (Inl e)
        then show ?thesis
          using assms
          by (simp add: run_compositor_def cell_scaling_def f u b Some
              cutout_image_array_def io_lift_def)
      next
        case (Inr v)
        obtain s ox oy where v: "v = (s, ox, oy)"
          by (cases v) auto
        show ?thesis
          using assms
          by (cases "cutout_minus_psf (array (image_plane e0)) (array (nb_kernel_image nb))
                       s ox oy")
            (auto simp: run_compositor_def cell_scaling_def f u b Some Inr v
              cutout_image_array_def io_lift_def io_return_def
              cell_subtract_def cell_residual_def lookup_def residual_eq)
      qed
    qed
  qed
qed

text \<open>
  Claim C9. Two runs of the compositor cells, from \<^verbatim>\<open>frame = 3\<close> to the statement
  that stores the image of \<^verbatim>\<open>residual\<close>, with the same libraries (\<^verbatim>\<open>np.sum\<close> a
  function of the elements it is given, \<^verbatim>\<open>matplotlib\<close> answering each call as before),
  from notebooks that hold the same cutout image array and the same PSF image array: both
  leave the same residual array, element for element with the same element type, or both
  stop with the same error, and both make the same calls of \<^verbatim>\<open>matplotlib\<close> with the
  same data and labels, whatever else the two notebooks hold (values left by earlier
  runs, other objects in the store). And after a run, a second run from the notebook the
  first one left gives the same residual array and the same calls again.
\<close>

theorem run_compositor_deterministic:
  "(cutout_image_array nb1 = cutout_image_array nb2 \<and>
    array (nb_kernel_image nb1) = array (nb_kernel_image nb2) \<longrightarrow>
      residual_array (fst (run_compositor env np_sum nb1)) =
        residual_array (fst (run_compositor env np_sum nb2)) \<and>
      snd (run_compositor env np_sum nb1) = snd (run_compositor env np_sum nb2)) \<and>
   (fst (run_compositor env np_sum nb1) = Inr nb' \<and>
    nb_cutout nb1 < next_addr (nb_heap nb1) \<longrightarrow>
      residual_array (fst (run_compositor env np_sum nb')) =
        residual_array (fst (run_compositor env np_sum nb1)) \<and>
      snd (run_compositor env np_sum nb') = snd (run_compositor env np_sum nb1))"
proof -
  have eq: "residual_array (fst (run_compositor env np_sum a)) =
              residual_array (fst (run_compositor env np_sum b)) \<and>
            snd (run_compositor env np_sum a) = snd (run_compositor env np_sum b)"
    if "cutout_image_array a = cutout_image_array b"
       "array (nb_kernel_image a) = array (nb_kernel_image b)" for a b
  proof -
    have "(residual_array (fst (run_compositor env np_sum a)),
           snd (run_compositor env np_sum a)) =
          (residual_array (fst (run_compositor env np_sum b)),
           snd (run_compositor env np_sum b))"
      using that by (simp only: run_compositor_array)
    then show ?thesis by simp
  qed
  have again: "residual_array (fst (run_compositor env np_sum nb')) =
                 residual_array (fst (run_compositor env np_sum nb1)) \<and>
               snd (run_compositor env np_sum nb') = snd (run_compositor env np_sum nb1)"
    if "fst (run_compositor env np_sum nb1) = Inr nb'"
       "nb_cutout nb1 < next_addr (nb_heap nb1)"
    using run_compositor_keeps_inputs [OF that] by (intro eq) simp_all
  show ?thesis
    using eq [of nb1 nb2] again by blast
qed

text \<open>A curve whose abscissae and ordinates differ in number stops the cell.\<close>

lemma plt_step_mismatch:
  "length xs \<noteq> length ys \<Longrightarrow>
   plt_step env xs ys lab = (Inl ValueError, [Plt (Step xs ys lab)])"
  by (simp add: plt_step_def io_call_def)

lemma arange_centred_examples:
  "arange_centred 2 = [Fin (- 1), Fin 0]"
  "arange_centred 3 = [Fin (- (3 / 2)), Fin (- (1 / 2)), Fin (1 / 2)]"
  by (simp_all add: arange_centred_def upt_rec [of _ "numeral _"] float_eval)

lemma example_slices:
  "cutout_slice example_cutout = Inr [Fin 3, Fin 4]"
  "kernel_slice example_kernel = Inr [Fin (1 / 4), Fin (1 / 2), Fin (1 / 4)]"
  "np_shape example_cutout = (2, 2)"
  "np_shape example_kernel = (3, 3)"
  "offset_nx example_cutout example_kernel = 1"
  "offset_ny example_cutout example_kernel = 1"
  "dtype example_cutout = Float32"
  "dtype example_kernel = Float64"
  by (simp_all add: cutout_slice_def kernel_slice_def np_row_def np_shape_def
      offset_nx_def offset_ny_def example_cutout_def example_kernel_def)

lemma example_scaling:
  "scaling seq_sum example_cutout example_kernel = Inr (Fin 7)"
  by (simp add: scaling_def example_slices promote_def seq_sum_def float_eval)

lemma example_products:
  "np_scalar_mul1 ds (Fin 7) Float64 [Fin (1 / 4), Fin (1 / 2), Fin (1 / 4)] =
     [Fin (7 / 4), Fin (7 / 2), Fin (7 / 4)]"
  by (simp add: np_scalar_mul1_double float_eval)

lemma example_residual_slice:
  "residual_slice Float32 [Fin 3, Fin 4] Float64 [Fin (1 / 4), Fin (1 / 2), Fin (1 / 4)]
     (Fin 7) 1 = Inr [Fin (5 / 4), Fin (1 / 2)]"
  by (simp add: residual_slice_def np_scalar_mul1_double scalar_result_type_double
      py_slice_def slice_bound_def np_subtract1_def broadcast_dim_def stretch_def
      promote_def float_eval)

lemma example_env_plt: "plt example_env c = None"
  by (simp add: example_env_def)

lemma example_scaling_body:
  "scaling_cell_body example_env seq_sum example_cutout example_kernel =
     (Inr (Fin 7, 1, 1),
      [Plt (Step [Fin (- 1), Fin 0] [Fin 3, Fin 4] (Label ''Postage Stamp slice'')),
       Plt (Step [Fin (- (3 / 2)), Fin (- (1 / 2)), Fin (1 / 2)]
                 [Fin (7 / 4), Fin (7 / 2), Fin (7 / 4)]
                 (LabelFormat ''PSF scaled by %.2f'' (Fin 7))),
       Plt (Step [Fin (- 1), Fin 0] [Fin (5 / 4), Fin (1 / 2)]
                 (Label ''Postage stamp - scaled PSF'')),
       Plt (Xlabel ''x''), Plt (Ylabel ''counts in pixel''), Plt Legend, Plt Show])"
  by (simp add: scaling_cell_body_def example_slices example_scaling example_products
      example_residual_slice arange_centred_examples plt_step_def example_env_plt
      io_lift_def io_do_def io_return_def Let_def)

lemma example_cutout_minus_psf:
  "cutout_minus_psf example_cutout example_kernel (Fin 7) 1 1 =
     Inr (NDArray Float64 2 [[Fin 1, Fin 2], [Fin (5 / 4), Fin (1 / 2)]])"
proof -
  have r: "rows example_cutout = [[Fin 1, Fin 2], [Fin 3, Fin 4]]" "ncols example_cutout = 2"
    by (simp_all add: example_cutout_def)
  show ?thesis
    unfolding cutout_minus_psf_eq [OF example_facts(1-3) example_slices(8)]
    by (simp add: example_crop r float_eval)
qed

lemma example_run:
  "run_compositor example_env seq_sum example_notebook =
     (Inr example_notebook_after,
      [Plt (Figure 3),
       Plt (Step [Fin (- 1), Fin 0] [Fin 3, Fin 4] (Label ''Postage Stamp slice'')),
       Plt (Step [Fin (- (3 / 2)), Fin (- (1 / 2)), Fin (1 / 2)]
                 [Fin (7 / 4), Fin (7 / 2), Fin (7 / 4)]
                 (LabelFormat ''PSF scaled by %.2f'' (Fin 7))),
       Plt (Step [Fin (- 1), Fin 0] [Fin (5 / 4), Fin (1 / 2)]
                 (Label ''Postage stamp - scaled PSF'')),
       Plt (Xlabel ''x''), Plt (Ylabel ''counts in pixel''), Plt Legend, Plt Show])"
proof -
  have a: "cutout_image_array example_notebook = Inr example_cutout"
    "array (nb_kernel_image example_notebook) = example_kernel"
    "objs (nb_heap example_notebook) (nb_cutout example_notebook) = Some example_exposure"
    by (simp_all add: cutout_image_array_def example_notebook_def example_heap_def
        example_exposure_def)
  have c: "cell_scaling example_env seq_sum example_notebook =
     (Inr (example_notebook\<lparr>nb_scaling := Some (Fin 7), nb_offset_nx := Some 1,
                              nb_offset_ny := Some 1\<rparr>),
      [Plt (Figure 3),
       Plt (Step [Fin (- 1), Fin 0] [Fin 3, Fin 4] (Label ''Postage Stamp slice'')),
       Plt (Step [Fin (- (3 / 2)), Fin (- (1 / 2)), Fin (1 / 2)]
                 [Fin (7 / 4), Fin (7 / 2), Fin (7 / 4)]
                 (LabelFormat ''PSF scaled by %.2f'' (Fin 7))),
       Plt (Step [Fin (- 1), Fin 0] [Fin (5 / 4), Fin (1 / 2)]
                 (Label ''Postage stamp - scaled PSF'')),
       Plt (Xlabel ''x''), Plt (Ylabel ''counts in pixel''), Plt Legend, Plt Show])"
    by (simp add: cell_scaling_def a example_scaling_body example_env_plt io_lift_def
        io_do_def io_return_def)
  have s: "cell_subtract (example_notebook\<lparr>nb_scaling := Some (Fin 7),
               nb_offset_nx := Some 1, nb_offset_ny := Some 1\<rparr>) =
           Inr (example_notebook\<lparr>nb_scaling := Some (Fin 7),
               nb_offset_nx := Some 1, nb_offset_ny := Some 1,
               nb_cutout_minus_psf :=
                 Some (NDArray Float64 2 [[Fin 1, Fin 2], [Fin (5 / 4), Fin (1 / 2)]])\<rparr>)"
    using a by (simp add: cell_subtract_def lookup_def cutout_image_array_def
        example_cutout_minus_psf)
  have r: "cell_residual (example_notebook\<lparr>nb_scaling := Some (Fin 7),
               nb_offset_nx := Some 1, nb_offset_ny := Some 1,
               nb_cutout_minus_psf :=
                 Some (NDArray Float64 2 [[Fin 1, Fin 2], [Fin (5 / 4), Fin (1 / 2)]])\<rparr>) =
           Inr example_notebook_after"
    by (simp add: cell_residual_def lookup_def residual_def clone_def setImage_def ImageF_def
        astype_def float_eval
        example_notebook_def example_notebook_after_def example_heap_def)
  show ?thesis
    unfolding run_compositor_def c by (simp add: io_lift_def s r)
qed

lemma example_run_array:
  "residual_array (Inr example_notebook_after) =
     Inr (Some (NDArray Float32 2 [[Fin 1, Fin 2], [Fin 1.25, Fin 0.5]]))"
  by (simp add: residual_array_def example_notebook_after_def)

text \<open>
  The example notebook, once with no name bound, once with stale values under
  \<^verbatim>\<open>scaling\<close>, \<^verbatim>\<open>offset_nx\<close> and \<^verbatim>\<open>cutout_minus_psf\<close>, and once as the
  first run left it, with sums taken from left to right and a \<^verbatim>\<open>matplotlib\<close> that
  draws: the residual is the same array each time, and the calls are the same eight.
\<close>

theorem run_compositor_deterministic_example:
  "residual_array (fst (run_compositor example_env seq_sum example_notebook)) =
     Inr (Some (NDArray Float32 2 [[Fin 1, Fin 2], [Fin 1.25, Fin 0.5]])) \<and>
   residual_array (fst (run_compositor example_env seq_sum
        (example_notebook\<lparr>nb_scaling := Some PInf, nb_offset_nx := Some 7,
                            nb_cutout_minus_psf := Some cutout51\<rparr>))) =
     Inr (Some (NDArray Float32 2 [[Fin 1, Fin 2], [Fin 1.25, Fin 0.5]])) \<and>
   residual_array (fst (run_compositor example_env seq_sum example_notebook_after)) =
     Inr (Some (NDArray Float32 2 [[Fin 1, Fin 2], [Fin 1.25, Fin 0.5]])) \<and>
   snd (run_compositor example_env seq_sum example_notebook_after) =
     [Plt (Figure 3),
      Plt (Step [Fin (- 1), Fin 0] [Fin 3, Fin 4] (Label ''Postage Stamp slice'')),
      Plt (Step [Fin (- 1.5), Fin (- 0.5), Fin 0.5] [Fin 1.75, Fin 3.5, Fin 1.75]
                (LabelFormat ''PSF scaled by %.2f'' (Fin 7))),
      Plt (Step [Fin (- 1), Fin 0] [Fin 1.25, Fin 0.5] (Label ''Postage stamp - scaled PSF'')),
      Plt (Xlabel ''x''), Plt (Ylabel ''counts in pixel''), Plt Legend, Plt Show]"
proof -
  have a: "nb_cutout example_notebook < next_addr (nb_heap example_notebook)"
    by (simp add: example_notebook_def example_heap_def)
  show ?thesis
    using run_compositor_deterministic [of example_notebook
        "example_notebook\<lparr>nb_scaling := Some PInf, nb_offset_nx := Some 7,
                            nb_cutout_minus_psf := Some cutout51\<rparr>"
        example_env seq_sum example_notebook_after]
      a example_run_array
    by (simp add: example_run cutout_image_array_def)
qed


section \<open>The cutout fetch\<close>

lemma cutout_first_read:
  "cutout_coadd_spherepoint env butler radec filt datasetType None s =
     io_bind (get_skyMap butler (datasetType @ ''_skyMap''), [ButlerGet (datasetType @ ''_skyMap'') None])
       (\<lambda>sm. cutout_coadd_spherepoint env butler radec filt datasetType (Some sm) s)"
  by (simp add: cutout_coadd_spherepoint_def io_call_def Let_def)

lemma cutout_resolved:
  assumes "findTract sm radec = Inr t" "findPatch t radec = Inr p"
    "tractWcs t radec = Inr pixel" "PointI env pixel = Inr xy"
  shows "cutout_coadd_spherepoint env butler radec filt datasetType (Some sm) s =
     (let bbox = BoxI (fst xy - s div 2, snd xy - s div 2) (s, s);
          coaddId = \<lparr>tract = getId t,
                     patch = str_int (fst (getIndex p)) @ '','' @ str_int (snd (getIndex p)),
                     filter_name = filt\<rparr>
      in (get_sub butler (datasetType @ ''_sub'') bbox coaddId,
          [ButlerGet (datasetType @ ''_sub'') (Some (bbox, coaddId))]))"
  using assms by (simp add: cutout_coadd_spherepoint_def io_call_def io_lift_def Let_def)

lemma example_lookups:
  "get_skyMap example_butler ''deepCoadd_skyMap'' = Inr example_skymap"
  "findTract example_skymap (SpherePoint 55 (- 29)) = Inr example_tract"
  "findPatch example_tract (SpherePoint 55 (- 29)) = Inr (PatchInfo (3, 5))"
  "tractWcs example_tract (SpherePoint 55 (- 29)) = Inr (1000, 2000)"
  "PointI example_env (1000, 2000) = Inr (1000, 2000)"
  by (simp_all add: example_butler_def example_skymap_def example_tract_def example_env_def)

lemma example_env_calls:
  "plt example_env c = None"
  "writeFits example_env x name = None"
  "zscale_get_limits example_env a = Inr (0, 1)"
  "afwDisplay example_env d dc = None"
  by (simp_all add: example_env_def)

lemma str_int_examples: "str_int 3 = ''3''" "str_int 5 = ''5''" "str_int 1 = ''1''" "str_int 2 = ''2''"
  by (simp_all add: str_int_def)

text \<open>
  Claim C3. Once the sky map, the tract and the patch are found, the box handed to the
  butler has the corner \<open>(x - s div 2, y - s div 2)\<close> and the extent \<open>(s, s)\<close>, where
  \<open>(x, y)\<close> is the centre pixel \<^verbatim>\<open>PointI(tractInfo.getWcs().skyToPixel(radec))\<close> and
  \<open>s\<close> the side length, for every centre and every side length: nothing clips the box
  to the tile. The call returns what the butler answers for that box.
\<close>

theorem cutout_bbox:
  assumes "(case skymap of None \<Rightarrow> get_skyMap butler (datasetType @ ''_skyMap'') | Some sm' \<Rightarrow> Inr sm') = Inr sm"
    "findTract sm radec = Inr t" "findPatch t radec = Inr p"
    "tractWcs t radec = Inr pixel" "PointI env pixel = Inr (x, y)"
  shows "let bbox = BoxI (x - s div 2, y - s div 2) (s, s);
             coaddId = \<lparr>tract = getId t,
                        patch = str_int (fst (getIndex p)) @ '','' @ str_int (snd (getIndex p)),
                        filter_name = filt\<rparr>
         in cutout_coadd_spherepoint env butler radec filt datasetType skymap s =
              (get_sub butler (datasetType @ ''_sub'') bbox coaddId,
               (case skymap of None \<Rightarrow> [ButlerGet (datasetType @ ''_skyMap'') None] | Some sm' \<Rightarrow> []) @
               [ButlerGet (datasetType @ ''_sub'') (Some (bbox, coaddId))])"
proof (cases skymap)
  case None
  then show ?thesis
    using assms by (simp add: cutout_first_read cutout_resolved Let_def)
next
  case (Some sm')
  then show ?thesis
    using assms by (simp add: cutout_resolved Let_def)
qed

text \<open>The default side 51 around the pixel (1000, 2000): the box is 51 by 51 from (975, 1975).\<close>

theorem cutout_bbox_example:
  "cutout_coadd_spherepoint example_env example_butler (SpherePoint 55 (- 29)) ''r'' ''deepCoadd'' None 51 =
     (Inr example_exposure,
      [ButlerGet ''deepCoadd_skyMap'' None,
       ButlerGet ''deepCoadd_sub''
         (Some (BoxI (975, 1975) (51, 51), \<lparr>tract = 4850, patch = ''3,5'', filter_name = ''r''\<rparr>))])"
proof -
  have a: "(case None of None \<Rightarrow> get_skyMap example_butler (''deepCoadd'' @ ''_skyMap'') | Some sm' \<Rightarrow> Inr sm')
             = Inr example_skymap"
    by (simp add: example_lookups)
  show ?thesis
    using cutout_bbox [OF a example_lookups(2,3,4,5), of 51 "''r''"]
    by (simp add: Let_def str_int_examples example_butler_def example_tract_def)
qed

lemma cutout_outcome:
  "fst (cutout_coadd_spherepoint env butler radec filt datasetType skymap s) =
     (case (case skymap of None \<Rightarrow> get_skyMap butler (datasetType @ ''_skyMap'')
                         | Some sm \<Rightarrow> Inr sm) of
        Inl e \<Rightarrow> Inl e
      | Inr sm \<Rightarrow>
     (case findTract sm radec of
        Inl e \<Rightarrow> Inl e
      | Inr t \<Rightarrow>
     (case findPatch t radec of
        Inl e \<Rightarrow> Inl e
      | Inr p \<Rightarrow>
     (case tractWcs t radec of
        Inl e \<Rightarrow> Inl e
      | Inr pixel \<Rightarrow>
     (case PointI env pixel of
        Inl e \<Rightarrow> Inl e
      | Inr xy \<Rightarrow>
          get_sub butler (datasetType @ ''_sub'')
            (BoxI (fst xy - s div 2, snd xy - s div 2) (s, s))
            \<lparr>tract = getId t,
              patch = str_int (fst (getIndex p)) @ '','' @ str_int (snd (getIndex p)),
              filter_name = filt\<rparr>)))))"
  by (simp add: cutout_coadd_spherepoint_def io_call_def io_lift_def io_return_def Let_def
      split: option.splits sum.splits)

text \<open>
  Claim C2, as the code has it. \<^verbatim>\<open>cutout_coadd_spherepoint\<close> compares
  \<^verbatim>\<open>datasetType\<close> with nothing and raises no error of its own, for every
  \<^verbatim>\<open>datasetType\<close>. With no sky map passed in, its first call is the butler read of
  \<^verbatim>\<open>datasetType\<close> followed by \<^verbatim>\<open>_skyMap\<close>, and when that read raises, the call
  ends with the butler's error after that one read. Whenever the call ends with an error,
  a collaborator raised it: the butler on the sky-map read, or else the sky map in
  \<^verbatim>\<open>findTract\<close>, or else the tract in \<^verbatim>\<open>findPatch\<close>, or else the coordinate
  transform, or else \<^verbatim>\<open>PointI\<close>, or else the butler on the read of \<^verbatim>\<open>datasetType\<close>
  followed by \<^verbatim>\<open>_sub\<close>, each after the ones before it have answered. And when all
  of them answer, the call returns the exposure the butler answered.
\<close>

theorem cutout_reads_before_any_check:
  "(\<exists>rest. snd (cutout_coadd_spherepoint env butler radec filt datasetType None s) =
             ButlerGet (datasetType @ ''_skyMap'') None # rest) \<and>
   (get_skyMap butler (datasetType @ ''_skyMap'') = Inl e \<longrightarrow>
      cutout_coadd_spherepoint env butler radec filt datasetType None s =
        (Inl e, [ButlerGet (datasetType @ ''_skyMap'') None])) \<and>
   (fst (cutout_coadd_spherepoint env butler radec filt datasetType skymap s) = Inl e \<longrightarrow>
      (skymap = None \<and> get_skyMap butler (datasetType @ ''_skyMap'') = Inl e) \<or>
      (\<exists>sm. (skymap = Some sm \<or>
              skymap = None \<and> get_skyMap butler (datasetType @ ''_skyMap'') = Inr sm) \<and>
         (findTract sm radec = Inl e \<or>
          (\<exists>t. findTract sm radec = Inr t \<and>
             (findPatch t radec = Inl e \<or>
              (\<exists>p. findPatch t radec = Inr p \<and>
                 (tractWcs t radec = Inl e \<or>
                  (\<exists>pixel. tractWcs t radec = Inr pixel \<and>
                     (PointI env pixel = Inl e \<or>
                      (\<exists>xy. PointI env pixel = Inr xy \<and>
                         get_sub butler (datasetType @ ''_sub'')
                           (BoxI (fst xy - s div 2, snd xy - s div 2) (s, s))
                           \<lparr>tract = getId t,
                             patch = str_int (fst (getIndex p)) @ '','' @
                                     str_int (snd (getIndex p)),
                             filter_name = filt\<rparr> = Inl e)))))))))) \<and>
   ((skymap = Some sm \<or>
     skymap = None \<and> get_skyMap butler (datasetType @ ''_skyMap'') = Inr sm) \<and>
    findTract sm radec = Inr t \<and> findPatch t radec = Inr p \<and>
    tractWcs t radec = Inr pixel \<and> PointI env pixel = Inr xy \<and>
    get_sub butler (datasetType @ ''_sub'')
      (BoxI (fst xy - s div 2, snd xy - s div 2) (s, s))
      \<lparr>tract = getId t,
        patch = str_int (fst (getIndex p)) @ '','' @ str_int (snd (getIndex p)),
        filter_name = filt\<rparr> = Inr img \<longrightarrow>
      fst (cutout_coadd_spherepoint env butler radec filt datasetType skymap s) = Inr img)"
proof -
  have 1: "\<exists>rest. snd (cutout_coadd_spherepoint env butler radec filt datasetType None s) =
             ButlerGet (datasetType @ ''_skyMap'') None # rest"
    by (cases "get_skyMap butler (datasetType @ ''_skyMap'')") (simp_all add: cutout_first_read)
  have 2: "cutout_coadd_spherepoint env butler radec filt datasetType None s =
        (Inl e, [ButlerGet (datasetType @ ''_skyMap'') None])"
    if "get_skyMap butler (datasetType @ ''_skyMap'') = Inl e"
    using that by (simp add: cutout_first_read)
  have 3: "(skymap = None \<and> get_skyMap butler (datasetType @ ''_skyMap'') = Inl e) \<or>
      (\<exists>sm. (skymap = Some sm \<or>
              skymap = None \<and> get_skyMap butler (datasetType @ ''_skyMap'') = Inr sm) \<and>
         (findTract sm radec = Inl e \<or>
          (\<exists>t. findTract sm radec = Inr t \<and>
             (findPatch t radec = Inl e \<or>
              (\<exists>p. findPatch t radec = Inr p \<and>
                 (tractWcs t radec = Inl e \<or>
                  (\<exists>pixel. tractWcs t radec = Inr pixel \<and>
                     (PointI env pixel = Inl e \<or>
                      (\<exists>xy. PointI env pixel = Inr xy \<and>
                         get_sub butler (datasetType @ ''_sub'')
                           (BoxI (fst xy - s div 2, snd xy - s div 2) (s, s))
                           \<lparr>tract = getId t,
                             patch = str_int (fst (getIndex p)) @ '','' @
                                     str_int (snd (getIndex p)),
                             filter_name = filt\<rparr> = Inl e)))))))))"
    if "fst (cutout_coadd_spherepoint env butler radec filt datasetType skymap s) = Inl e"
    using that unfolding cutout_outcome
    by (auto split: option.splits sum.splits)
  have 4: "fst (cutout_coadd_spherepoint env butler radec filt datasetType skymap s) = Inr img"
    if "skymap = Some sm \<or>
        skymap = None \<and> get_skyMap butler (datasetType @ ''_skyMap'') = Inr sm"
      "findTract sm radec = Inr t" "findPatch t radec = Inr p"
      "tractWcs t radec = Inr pixel" "PointI env pixel = Inr xy"
      "get_sub butler (datasetType @ ''_sub'')
        (BoxI (fst xy - s div 2, snd xy - s div 2) (s, s))
        \<lparr>tract = getId t,
          patch = str_int (fst (getIndex p)) @ '','' @ str_int (snd (getIndex p)),
          filter_name = filt\<rparr> = Inr img"
    using that unfolding cutout_outcome by auto
  show ?thesis
    using 1 2 3 4 by blast
qed

text \<open>
  With \<^verbatim>\<open>calexp\<close>, the example butler is asked for \<^verbatim>\<open>calexp_skyMap\<close> and raises,
  and that is the error of the call; a butler that answers every dataset type is asked
  for \<^verbatim>\<open>calexp_sub\<close> and its exposure is returned.
\<close>

theorem cutout_reads_before_any_check_example:
  "cutout_coadd_spherepoint example_env example_butler (SpherePoint 55 (- 29)) ''r'' ''calexp'' None 51 =
     (Inl (External ''NoResults''), [ButlerGet ''calexp_skyMap'' None]) \<and>
   fst (cutout_coadd_spherepoint example_env permissive_butler (SpherePoint 55 (- 29)) ''r''
          ''calexp'' None 51) = Inr example_exposure"
  using cutout_reads_before_any_check [of example_env example_butler "SpherePoint 55 (- 29)" "''r''"
      "''calexp''" 51 "External ''NoResults''" None]
    cutout_reads_before_any_check [of example_env permissive_butler "SpherePoint 55 (- 29)" "''r''"
      "''calexp''" 51 "External ''NoResults''" None example_skymap example_tract
      "PatchInfo (3, 5)" "(1000, 2000)" "(1000, 2000)" example_exposure]
    example_lookups(2,3,4,5)
  by (simp add: example_butler_def permissive_butler_def)

text \<open>
  The claim as stated fails for \<^verbatim>\<open>calexp\<close>: a read is attempted before anything is
  raised, and with a butler that answers every dataset type nothing is raised at all.
\<close>

theorem calexp_read_attempted:
  "snd (cutout_coadd_spherepoint example_env example_butler (SpherePoint 55 (- 29)) ''r'' ''calexp'' None 51)
     = [ButlerGet ''calexp_skyMap'' None] \<and>
   cutout_coadd_spherepoint example_env permissive_butler (SpherePoint 55 (- 29)) ''r'' ''calexp'' None 51 =
     (Inr example_exposure,
      [ButlerGet ''calexp_skyMap'' None,
       ButlerGet ''calexp_sub''
         (Some (BoxI (975, 1975) (51, 51), \<lparr>tract = 4850, patch = ''3,5'', filter_name = ''r''\<rparr>))])"
  by (simp add: cutout_first_read cutout_resolved [OF example_lookups(2,3,4,5)] example_butler_def
        permissive_butler_def Let_def str_int_examples example_tract_def)


section \<open>The dataset type of the two stamp functions\<close>

lemma io_bind_snd:
  "snd (io_bind m f) = snd m @ (case fst m of Inl e \<Rightarrow> [] | Inr x \<Rightarrow> snd (f x))"
  by (cases m; cases "fst m") auto

lemma io_bind_fst_InrE:
  assumes "fst (io_bind m f) = Inr y"
  obtains x where "fst m = Inr x" "fst (f x) = Inr y"
  using io_bind_fst_Inr [OF assms] by blast

lemma make_cutout_image_returns_fetch:
  assumes "fst (make_cutout_image env butler ra dec filt vmin vmax label show_fig saveplot
             savefits dt) = Inr img"
  shows "fst (cutout_coadd_ra_dec env butler ra dec filt ''deepCoadd'') = Inr img"
  using assms unfolding make_cutout_image_def Let_def
  by (auto elim!: io_bind_fst_InrE simp: io_return_def)

lemma display_cutout_image_returns_fetch:
  assumes "fst (display_cutout_image env butler ra dec vmin vmax label frame display backend
             show_fig saveplot savefits old_matplotlib dt) = Inr img"
  shows "fst (cutout_coadd_ra_dec env butler ra dec ''r'' ''deepCoadd'') = Inr img"
  using assms unfolding display_cutout_image_def Let_def
  by (auto elim!: io_bind_fst_InrE simp: io_return_def)

text \<open>
  Claim C10. \<^verbatim>\<open>make_cutout_image\<close> and \<^verbatim>\<open>display_cutout_image\<close> give the same
  outcome and make the same calls for every two values of \<^verbatim>\<open>datasetType\<close>. The image
  each returns is the one \<^verbatim>\<open>cutout_coadd_ra_dec\<close> returns for \<^verbatim>\<open>deepCoadd\<close> (and,
  in \<^verbatim>\<open>display_cutout_image\<close>, for the filter \<^verbatim>\<open>r\<close>), and the calls of that fetch
  come first.
\<close>

theorem datasetType_ignored:
  "make_cutout_image env butler ra dec filt vmin vmax label show_fig saveplot savefits dt1 =
   make_cutout_image env butler ra dec filt vmin vmax label show_fig saveplot savefits dt2 \<and>
   display_cutout_image env butler ra dec vmin vmax label frame display backend
     show_fig saveplot savefits old_matplotlib dt1 =
   display_cutout_image env butler ra dec vmin vmax label frame display backend
     show_fig saveplot savefits old_matplotlib dt2 \<and>
   (fst (make_cutout_image env butler ra dec filt vmin vmax label show_fig saveplot savefits dt1)
      = Inr img \<longrightarrow>
    fst (cutout_coadd_ra_dec env butler ra dec filt ''deepCoadd'') = Inr img) \<and>
   (fst (display_cutout_image env butler ra dec vmin vmax label frame display backend
           show_fig saveplot savefits old_matplotlib dt1) = Inr img' \<longrightarrow>
    fst (cutout_coadd_ra_dec env butler ra dec ''r'' ''deepCoadd'') = Inr img') \<and>
   (\<exists>rest. snd (make_cutout_image env butler ra dec filt vmin vmax label show_fig saveplot savefits dt1)
      = snd (cutout_coadd_ra_dec env butler ra dec filt ''deepCoadd'') @ rest) \<and>
   (\<exists>rest. snd (display_cutout_image env butler ra dec vmin vmax label frame display backend
           show_fig saveplot savefits old_matplotlib dt1)
      = snd (cutout_coadd_ra_dec env butler ra dec ''r'' ''deepCoadd'') @ rest)"
proof -
  have 1: "make_cutout_image env butler ra dec filt vmin vmax label show_fig saveplot savefits dt1 =
     make_cutout_image env butler ra dec filt vmin vmax label show_fig saveplot savefits dt2"
    by (simp only: make_cutout_image_def)
  have 2: "display_cutout_image env butler ra dec vmin vmax label frame display backend
       show_fig saveplot savefits old_matplotlib dt1 =
     display_cutout_image env butler ra dec vmin vmax label frame display backend
       show_fig saveplot savefits old_matplotlib dt2"
    by (simp only: display_cutout_image_def)
  have 5: "\<exists>rest. snd (make_cutout_image env butler ra dec filt vmin vmax label show_fig saveplot savefits dt1)
      = snd (cutout_coadd_ra_dec env butler ra dec filt ''deepCoadd'') @ rest"
    unfolding make_cutout_image_def io_bind_snd by blast
  have 6: "\<exists>rest. snd (display_cutout_image env butler ra dec vmin vmax label frame display backend
           show_fig saveplot savefits old_matplotlib dt1)
      = snd (cutout_coadd_ra_dec env butler ra dec ''r'' ''deepCoadd'') @ rest"
    unfolding display_cutout_image_def io_bind_snd by blast
  have 3: "fst (make_cutout_image env butler ra dec filt vmin vmax label show_fig saveplot savefits dt1)
      = Inr img \<longrightarrow>
    fst (cutout_coadd_ra_dec env butler ra dec filt ''deepCoadd'') = Inr img"
    by (rule impI) (rule make_cutout_image_returns_fetch)
  have 4: "fst (display_cutout_image env butler ra dec vmin vmax label frame display backend
           show_fig saveplot savefits old_matplotlib dt1) = Inr img' \<longrightarrow>
    fst (cutout_coadd_ra_dec env butler ra dec ''r'' ''deepCoadd'') = Inr img'"
    by (rule impI) (rule display_cutout_image_returns_fetch)
  show ?thesis
    by (intro conjI 1 2 3 4 5 6)
qed

lemma example_fetch:
  "cutout_coadd_ra_dec example_env example_butler 55 (- 29) ''r'' ''deepCoadd'' =
     (Inr example_exposure,
      [ButlerGet ''deepCoadd_skyMap'' None,
       ButlerGet ''deepCoadd_sub''
         (Some (BoxI (975, 1975) (51, 51), \<lparr>tract = 4850, patch = ''3,5'', filter_name = ''r''\<rparr>))])"
  by (simp add: cutout_coadd_ra_dec_def cutout_first_read
        cutout_resolved [OF example_lookups(2,3,4,5)]
        example_butler_def Let_def str_int_examples example_tract_def)

lemma example_make:
  "make_cutout_image example_env example_butler 55 (- 29) ''r'' None None None True
       (PyBool False) (PyBool False) dt =
     (Inr example_exposure,
      [ButlerGet ''deepCoadd_skyMap'' None,
       ButlerGet ''deepCoadd_sub''
         (Some (BoxI (975, 1975) (51, 51), \<lparr>tract = 4850, patch = ''3,5'', filter_name = ''r''\<rparr>)),
       Plt (Imshow example_cutout 0 1), Plt Colorbar, Plt (Scatter 1 1), Plt Show])"
  unfolding make_cutout_image_def example_fetch
  by (simp add: io_when_def io_do_def io_return_def io_lift_def example_env_calls getX0_def
        getY0_def example_exposure_def)

lemma example_display:
  "display_cutout_image example_env example_butler 55 (- 29) None None None (Some 2) None
       ''matplotlib'' True (PyBool False) (PyBool False) False dt =
     (Inr example_exposure,
      [ButlerGet ''deepCoadd_skyMap'' None,
       ButlerGet ''deepCoadd_sub''
         (Some (BoxI (975, 1975) (51, 51), \<lparr>tract = 4850, patch = ''3,5'', filter_name = ''r''\<rparr>)),
       Disp (Display (Some 2) ''matplotlib'') Create,
       Disp (Display (Some 2) ''matplotlib'') (Mtv example_exposure),
       Disp (Display (Some 2) ''matplotlib'') (Scale ''asinh'' ''zscale''),
       Disp (Display (Some 2) ''matplotlib'') (Dot ''o'' 11 21 ''red''),
       Disp (Display (Some 2) ''matplotlib'') ShowColorbar])"
  unfolding display_cutout_image_def example_fetch
  by (simp add: io_when_def io_do_def io_return_def io_lift_def example_env_calls
        example_exposure_def)

text \<open>Asked for \<^verbatim>\<open>calexp\<close>, both functions read and return the deepCoadd cutout.\<close>

theorem datasetType_ignored_example:
  "make_cutout_image example_env example_butler 55 (- 29) ''r'' None None None True
       (PyBool False) (PyBool False) ''calexp'' =
   make_cutout_image example_env example_butler 55 (- 29) ''r'' None None None True
       (PyBool False) (PyBool False) ''deepCoadd'' \<and>
   display_cutout_image example_env example_butler 55 (- 29) None None None (Some 2) None
       ''matplotlib'' True (PyBool False) (PyBool False) False ''calexp'' =
   display_cutout_image example_env example_butler 55 (- 29) None None None (Some 2) None
       ''matplotlib'' True (PyBool False) (PyBool False) False ''deepCoadd'' \<and>
   fst (make_cutout_image example_env example_butler 55 (- 29) ''r'' None None None True
       (PyBool False) (PyBool False) ''calexp'') = Inr example_exposure \<and>
   fst (display_cutout_image example_env example_butler 55 (- 29) None None None (Some 2) None
       ''matplotlib'' True (PyBool False) (PyBool False) False ''calexp'') = Inr example_exposure \<and>
   fst (cutout_coadd_ra_dec example_env example_butler 55 (- 29) ''r'' ''deepCoadd'')
     = Inr example_exposure"
  using datasetType_ignored [of example_env example_butler 55 "- 29" "''r''" None None None True
       "PyBool False" "PyBool False" "''calexp''" "''deepCoadd''" "Some 2" None "''matplotlib''"
       False example_exposure example_exposure]
    example_make [of "''calexp''"] example_make [of "''deepCoadd''"]
    example_display [of "''calexp''"] example_display [of "''deepCoadd''"]
  by simp

section \<open>The loop over the catalogue\<close>

lemma stamps_append_failure:
  assumes "fst (stamps env butler pre) = Inr ()" "fst (stamp env butler row) = Inl e"
  shows "stamps env butler (pre @ row # post) =
           (Inl e, snd (stamps env butler pre) @ snd (stamp env butler row))"
  using assms
proof (induction pre)
  case Nil
  then show ?case
    by (cases "stamp env butler row") (simp add: io_return_def)
next
  case (Cons a pre)
  obtain r l where s: "stamp env butler a = (r, l)"
    by (cases "stamp env butler a")
  show ?case
  proof (cases r)
    case (Inl e')
    then show ?thesis using Cons.prems s by simp
  next
    case (Inr u)
    then show ?thesis using Cons s by simp
  qed
qed

text \<open>
  Claim C8. When the rows before one row are processed without error and that row raises
  \<open>e\<close>, the loop ends with \<open>e\<close>. Its calls are those of the rows before and those of
  the failing row up to the error, each once; the rows after it add nothing: the loop
  over the whole table is the loop over the table cut after the failing row.
\<close>

theorem stamps_abort_at_first_error:
  assumes "fst (stamps env butler pre) = Inr ()" "fst (stamp env butler row) = Inl e"
  shows "stamps env butler (pre @ row # post) =
           (Inl e, snd (stamps env butler pre) @ snd (stamp env butler row)) \<and>
         stamps env butler (pre @ row # post) = stamps env butler (pre @ [row])"
  using stamps_append_failure [OF assms, of post] stamps_append_failure [OF assms, of "[]"]
  by simp

lemma example_fetch_outside:
  "cutout_coadd_ra_dec example_env example_butler 70 (- 29) ''r'' ''deepCoadd'' =
     (Inl (External ''LookupError''), [ButlerGet ''deepCoadd_skyMap'' None])"
  by (simp add: cutout_coadd_ra_dec_def cutout_coadd_spherepoint_def io_call_def io_lift_def
        example_butler_def example_skymap_def Let_def)

lemma example_make_stamp:
  "make_cutout_image example_env example_butler 55 (- 29) ''r'' (Some (- (3 / 4))) (Some (3 / 2))
       (Some ''Object ID: 1'') False (PyStr ''Stamps/deepCoadd_1_r.png'')
       (PyStr ''Stamps/deepCoadd_1_r.fits'') ''deepCoadd'' =
     (Inr example_exposure,
      [ButlerGet ''deepCoadd_skyMap'' None,
       ButlerGet ''deepCoadd_sub''
         (Some (BoxI (975, 1975) (51, 51), \<lparr>tract = 4850, patch = ''3,5'', filter_name = ''r''\<rparr>)),
       WriteFits ''Stamps/deepCoadd_1_r.fits'',
       Plt (Imshow example_cutout (- 0.75) 1.5), Plt Colorbar, Plt (Scatter 1 1),
       Plt (Title ''Object ID: 1''), Plt (Savefig ''Stamps/deepCoadd_1_r.png'')])"
  unfolding make_cutout_image_def example_fetch
  by (simp add: io_when_def io_do_def io_return_def io_lift_def example_env_calls getX0_def
        getY0_def example_exposure_def)

lemma example_stamp_1:
  "stamp example_env example_butler (1, 55, - 29) =
     (Inr (),
      [Plt (Figure 1), Plt Clf,
       ButlerGet ''deepCoadd_skyMap'' None,
       ButlerGet ''deepCoadd_sub''
         (Some (BoxI (975, 1975) (51, 51), \<lparr>tract = 4850, patch = ''3,5'', filter_name = ''r''\<rparr>)),
       WriteFits ''Stamps/deepCoadd_1_r.fits'',
       Plt (Imshow example_cutout (- 0.75) 1.5), Plt Colorbar, Plt (Scatter 1 1),
       Plt (Title ''Object ID: 1''), Plt (Savefig ''Stamps/deepCoadd_1_r.png'')])"
  unfolding stamp_def
  by (simp add: Let_def str_int_examples example_make_stamp io_do_def io_return_def
        example_env_calls)

lemma example_stamp_2:
  "stamp example_env example_butler (2, 70, - 29) =
     (Inl (External ''LookupError''),
      [Plt (Figure 1), Plt Clf, ButlerGet ''deepCoadd_skyMap'' None])"
  unfolding stamp_def make_cutout_image_def
  by (simp add: example_fetch_outside Let_def io_do_def example_env_calls)

text \<open>
  Three targets, the second outside the sky map: the first is fetched, saved and plotted,
  the second fails at the tract lookup, and the third is never fetched.
\<close>

theorem stamps_abort_at_first_error_example:
  "stamps example_env example_butler [(1, 55, - 29), (2, 70, - 29), (3, 56, - 29)] =
     (Inl (External ''LookupError''),
      [Plt (Figure 1), Plt Clf,
       ButlerGet ''deepCoadd_skyMap'' None,
       ButlerGet ''deepCoadd_sub''
         (Some (BoxI (975, 1975) (51, 51), \<lparr>tract = 4850, patch = ''3,5'', filter_name = ''r''\<rparr>)),
       WriteFits ''Stamps/deepCoadd_1_r.fits'',
       Plt (Imshow example_cutout (- 0.75) 1.5), Plt Colorbar, Plt (Scatter 1 1),
       Plt (Title ''Object ID: 1''), Plt (Savefig ''Stamps/deepCoadd_1_r.png''),
       Plt (Figure 1), Plt Clf, ButlerGet ''deepCoadd_skyMap'' None])"
proof -
  have a: "fst (stamps example_env example_butler [(1, 55, - 29)]) = Inr ()"
    by (simp add: example_stamp_1 io_return_def)
  have b: "fst (stamp example_env example_butler (2, 70, - 29)) = Inl (External ''LookupError'')"
    by (simp add: example_stamp_2)
  show ?thesis
    using stamps_abort_at_first_error [OF a b, of "[(3, 56, - 29)]"]
    by (simp add: example_stamp_1 example_stamp_2 io_return_def)
qed

end
